theory Spec2Isabelle
  imports Main "HOL-Library.AList"
begin

unbundle bit_operations_syntax

section \<open>Values and dictionaries\<close>

text \<open>
  The Python values that flow through \<^verbatim>\<open>vj4/view/base.py\<close>: cookie values and form
  fields are strings, session ids are byte strings, expiry times are datetimes (kept as
  their whole seconds since the epoch, which is what \<^verbatim>\<open>calendar.timegm\<close> reads
  off them), an uploaded form field is a \<^verbatim>\<open>FileField\<close>.
\<close>

datatype val =
    VNone
  | VBool bool
  | VInt int
  | VStr string
  | VBytes string
  | VDatetime int
  | VFile string

text \<open>
  A Python \<^verbatim>\<open>dict\<close> with string keys (keyword arguments, a session document, form
  data) is an association list: \<open>map_of\<close> is the lookup, \<open>AList.update\<close> is
  \<^verbatim>\<open>d[k] = v\<close> (in place when the key exists, appended otherwise, as
  \<^verbatim>\<open>{**d, k: v}\<close> does), \<open>AList.delete\<close> removes a key.
\<close>

type_synonym pydict = "(string \<times> val) list"

text \<open>Writing the fields of one dictionary into another, as \<^verbatim>\<open>{**doc, **flds}\<close> does.\<close>

definition set_fields :: "pydict \<Rightarrow> pydict \<Rightarrow> pydict" where
  "set_fields flds doc = foldl (\<lambda>d (k, x). AList.update k x d) doc flds"

text \<open>Python truthiness of the values the source tests with \<^verbatim>\<open>if x\<close>.\<close>

definition truthy_str :: "string option \<Rightarrow> bool" where
  "truthy_str s = (case s of None \<Rightarrow> False | Some t \<Rightarrow> t \<noteq> [])"

definition truthy_dict :: "pydict option \<Rightarrow> bool" where
  "truthy_dict d = (case d of None \<Rightarrow> False | Some kvs \<Rightarrow> kvs \<noteq> [])"

section \<open>Errors\<close>

text \<open>
  Modelled from the spec: the module \<^verbatim>\<open>vj4.error\<close> is not among the sources. Its
  user-facing taxonomy is the one the specification lists (section 7), each error with
  the value it carries; the other constructors are the Python exceptions that the
  modelled code can raise itself or receive from a library it calls
  (\<^verbatim>\<open>ValueError\<close> is what \<^verbatim>\<open>accept.parse\<close> raises on a header it cannot
  parse), and \<open>OtherError\<close> stands for any failure of a collaborator (a store that
  cannot be reached, an unexpected exception).
\<close>

datatype error =
    DomainNotFoundError string
  | PermissionError int
  | PrivilegeError int
  | CsrfTokenError
  | InvalidOperationError string
  | KeyError string
  | AttributeError string
  | TypeError string
  | ValueError string
  | OtherError string

text \<open>\<^verbatim>\<open>isinstance(e, error.UserFacingError)\<close>\<close>

fun is_user_facing :: "error \<Rightarrow> bool" where
  "is_user_facing (DomainNotFoundError _) = True"
| "is_user_facing (PermissionError _) = True"
| "is_user_facing (PrivilegeError _) = True"
| "is_user_facing CsrfTokenError = True"
| "is_user_facing (InvalidOperationError _) = True"
| "is_user_facing (KeyError _) = False"
| "is_user_facing (AttributeError _) = False"
| "is_user_facing (TypeError _) = False"
| "is_user_facing (ValueError _) = False"
| "is_user_facing (OtherError _) = False"

section \<open>Accept negotiation: \<^verbatim>\<open>View.prefer_json\<close>\<close>

text \<open>
  \<^verbatim>\<open>accept.parse\<close> is a third-party function; it is a parameter. It returns the
  list of the parsed entries, or raises on a header it cannot parse. What the source
  reads of each parsed entry are the attributes \<^verbatim>\<open>media_type\<close> and
  \<^verbatim>\<open>all_types\<close>.
\<close>

record media_range =
  media_type :: string
  all_types :: bool

text \<open>
  \<^verbatim>\<open>
  @property
  def prefer_json(self):
    for d in accept.parse(self.request.headers.get('Accept')):
      if d.media_type == 'application/json':
        return True
      elif d.media_type == 'text/html' or d.all_types:
        return False
    return False
  \<close>
  The loop is \<open>prefer_json_scan\<close>. The property has no \<^verbatim>\<open>try\<close>: an exception of
  \<^verbatim>\<open>accept.parse\<close> is an exception of \<^verbatim>\<open>prefer_json\<close>.
\<close>

fun prefer_json_scan :: "media_range list \<Rightarrow> bool" where
  "prefer_json_scan [] = False"
| "prefer_json_scan (d # ds) =
     (if media_type d = ''application/json'' then True
      else if media_type d = ''text/html'' \<or> all_types d then False
      else prefer_json_scan ds)"

definition prefer_json ::
  "(string option \<Rightarrow> error + media_range list) \<Rightarrow> (string \<rightharpoonup> string) \<Rightarrow> error + bool" where
  "prefer_json accept_parse headers =
     (case accept_parse (headers ''Accept'') of
        Inl e \<Rightarrow> Inl e
      | Inr ds \<Rightarrow> Inr (prefer_json_scan ds))"


section \<open>Permissions: \<^verbatim>\<open>ViewBase.has_perm\<close>\<close>

text \<open>
  User and domain documents, with the fields the source reads:
  \<^verbatim>\<open>user['_id']\<close>, \<^verbatim>\<open>user['roles']\<close>, \<^verbatim>\<open>user['priv']\<close>,
  \<^verbatim>\<open>domain['owner_uid']\<close>, \<^verbatim>\<open>domain['roles']\<close>. Permission and privilege
  masks are Python integers (unbounded), so \<open>int\<close> with its bitwise \<open>AND\<close>.
\<close>

record user_doc =
  user_id :: int
  user_roles :: "string \<rightharpoonup> string"
  user_priv :: int

record domain_doc =
  owner_uid :: int
  domain_roles :: "string \<rightharpoonup> int"

text \<open>The constants of \<^verbatim>\<open>vj4.model.builtin\<close> that the source uses; parameters.\<close>

record builtin =
  ROLE_DEFAULT :: string
  PERM_NONE :: int
  USER_GUEST :: user_doc
  DOMAIN_ID_SYSTEM :: string

text \<open>\<^verbatim>\<open>d.get(k, default)\<close>\<close>

definition dict_get :: "('k \<rightharpoonup> 'v) \<Rightarrow> 'k \<Rightarrow> 'v \<Rightarrow> 'v" where
  "dict_get d k dflt = (case d k of None \<Rightarrow> dflt | Some v \<Rightarrow> v)"

text \<open>
  \<^verbatim>\<open>
  def has_perm(self, perm):
    role = self.user['roles'].get(self.domain_id, builtin.ROLE_DEFAULT)
    mask = self.domain['roles'].get(role, builtin.PERM_NONE)
    return (perm & mask) == perm or self.domain['owner_uid'] == self.user['_id']
  \<close>
  The arguments \<open>usr\<close>, \<open>did\<close> and \<open>dm\<close> are \<^verbatim>\<open>self.user\<close>,
  \<^verbatim>\<open>self.domain_id\<close> and \<^verbatim>\<open>self.domain\<close>.
\<close>

definition has_perm :: "builtin \<Rightarrow> user_doc \<Rightarrow> string \<Rightarrow> domain_doc \<Rightarrow> int \<Rightarrow> bool" where
  "has_perm b usr did dm perm =
     (let role = dict_get (user_roles usr) did (ROLE_DEFAULT b);
          mask = dict_get (domain_roles dm) role (PERM_NONE b)
      in (perm AND mask) = perm \<or> owner_uid dm = user_id usr)"

text \<open>
  The permission rule in the words of the specification: the effective role is the
  user's role in the domain or the default role, the permission mask is the domain's
  mask for that role or the no-permission mask, and the check passes when the mask
  covers every requested bit or the user owns the domain.
\<close>

definition effective_role :: "builtin \<Rightarrow> user_doc \<Rightarrow> string \<Rightarrow> string" where
  "effective_role b usr did =
     (case user_roles usr did of Some r \<Rightarrow> r | None \<Rightarrow> ROLE_DEFAULT b)"

definition permission_mask :: "builtin \<Rightarrow> domain_doc \<Rightarrow> string \<Rightarrow> int" where
  "permission_mask b dm role =
     (case domain_roles dm role of Some m \<Rightarrow> m | None \<Rightarrow> PERM_NONE b)"

definition spec_has_permission ::
  "builtin \<Rightarrow> user_doc \<Rightarrow> string \<Rightarrow> domain_doc \<Rightarrow> int \<Rightarrow> bool" where
  "spec_has_permission b usr did dm perm =
     ((perm AND permission_mask b dm (effective_role b usr did)) = perm
      \<or> user_id usr = owner_uid dm)"

section \<open>The permission and privilege guards\<close>

text \<open>
  \<^verbatim>\<open>
  def check_perm(self, perm):
    if not self.has_perm(perm):
      raise error.PermissionError(perm)
  \<close>
\<close>

definition check_perm ::
  "builtin \<Rightarrow> user_doc \<Rightarrow> string \<Rightarrow> domain_doc \<Rightarrow> int \<Rightarrow> error + unit" where
  "check_perm b usr did dm perm =
     (if \<not> has_perm b usr did dm perm then Inl (PermissionError perm) else Inr ())"

text \<open>
  \<^verbatim>\<open>
  def has_priv(self, priv):
    return (priv & self.user['priv']) == priv
  \<close>
\<close>

definition has_priv :: "user_doc \<Rightarrow> int \<Rightarrow> bool" where
  "has_priv usr priv = ((priv AND user_priv usr) = priv)"

definition check_priv :: "user_doc \<Rightarrow> int \<Rightarrow> error + unit" where
  "check_priv usr priv = (if \<not> has_priv usr priv then Inl (PrivilegeError priv) else Inr ())"

section \<open>Sessions: the state a request handler works on\<close>

text \<open>
  Modelled from the spec: the constants \<^verbatim>\<open>token.TYPE_SAVED_SESSION\<close> and
  \<^verbatim>\<open>token.TYPE_UNSAVED_SESSION\<close> of the module \<^verbatim>\<open>vj4.model.token\<close>, which is
  not among the sources, are the two session types of the specification, and distinct.
\<close>

datatype token_type = TYPE_SAVED_SESSION | TYPE_UNSAVED_SESSION

text \<open>
  The three operations of that module that the source calls,
  \<^verbatim>\<open>update(id, type, ttl, **fields)\<close>, \<^verbatim>\<open>add(type, ttl, **fields)\<close> and
  \<^verbatim>\<open>delete(id, type)\<close>, are parameters: functions on the state \<open>'s\<close> of the Token
  Store, of which nothing is assumed. \<^verbatim>\<open>update\<close> returns the session document or
  \<^verbatim>\<open>None\<close>, \<^verbatim>\<open>add\<close> the new session id with the document, \<^verbatim>\<open>delete\<close> a
  boolean.
\<close>

record 's token_module =
  token_update :: "string \<Rightarrow> token_type \<Rightarrow> int \<Rightarrow> pydict \<Rightarrow> 's \<Rightarrow> pydict option \<times> 's"
  token_add :: "token_type \<Rightarrow> int \<Rightarrow> pydict \<Rightarrow> 's \<Rightarrow> (string \<times> pydict) \<times> 's"
  token_delete :: "string \<Rightarrow> token_type \<Rightarrow> 's \<Rightarrow> bool \<times> 's"

text \<open>Every call the code makes to the Token Store is recorded, in order.\<close>

datatype token_call =
    TokenUpdate string token_type int pydict
  | TokenAdd token_type int pydict
  | TokenDelete string token_type

text \<open>The fields of \<^verbatim>\<open>options.options\<close> that the source reads.\<close>

record options =
  saved_session_expire_seconds :: int
  unsaved_session_expire_seconds :: int
  cookie_domain :: val
  cookie_secure :: val
  ip_header :: "string option"

text \<open>
  A response cookie is what \<^verbatim>\<open>response.set_cookie(name, value, **kwargs)\<close> was given.
  The \<^verbatim>\<open>expires\<close> attribute is \<^verbatim>\<open>utils.formatdate(t, usegmt=True)\<close>; it is kept
  as the timestamp \<open>t\<close>, so the epoch expiry is \<open>Some 0\<close>.
\<close>

record cookie =
  cookie_value :: string
  expires :: "int option"
  max_age :: "int option"
  domain_attr :: val
  secure :: val
  httponly :: bool

text \<open>
  The body of a response is either not set, the JSON encoding of an object, or a
  rendered template with the keyword arguments it was rendered with; the encoder and the
  template engine are collaborators, so the text itself stays symbolic.
\<close>

datatype tval =
    TError error
  | TStr string
  | TTranslate string
  | TBuildPath string "(string \<times> string option) list"

datatype json = JDict "(string \<times> json) list" | JVal val

datatype body =
    NoBody
  | JsonEncode json
  | Rendered string "(string \<times> tval) list"

record response =
  status :: int
  content_type :: string
  resp_text :: body
  cookies :: "string \<rightharpoonup> cookie"
  resp_headers :: "string \<rightharpoonup> string"

text \<open>\<^verbatim>\<open>web.Response()\<close>\<close>

definition new_response :: response where
  "new_response =
     \<lparr>status = 200, content_type = ''application/octet-stream'', resp_text = NoBody,
      cookies = Map.empty, resp_headers = Map.empty\<rparr>"

text \<open>
  The request as the source reads it (cookies, headers, the peer address of the
  transport, the route's match info, the posted form), the attributes that
  \<^verbatim>\<open>prepare\<close> sets on the view, and the world outside the view: the state of the Token
  Store with the calls made to it, the warnings logged, and the memo table of
  \<^verbatim>\<open>_get_csrf_token\<close>.
\<close>

record 's view =
  request_cookies :: "string \<rightharpoonup> string"
  request_headers :: "string \<rightharpoonup> string"
  peername :: "(string \<times> int) option"
  match_info :: "string \<rightharpoonup> string"
  request_post :: pydict
  response :: response
  session :: pydict
  user :: user_doc
  domain_id :: string
  domain :: "domain_doc option"
  store :: 's
  calls :: "token_call list"
  warnings :: "error list"
  csrf_cache :: "(val \<times> string) list"

text \<open>\<^verbatim>\<open>headers.get(name)\<close>: the string, or \<^verbatim>\<open>None\<close>.\<close>

definition get_str :: "(string \<rightharpoonup> string) \<Rightarrow> string \<Rightarrow> val" where
  "get_str m k = (case m k of None \<Rightarrow> VNone | Some s \<Rightarrow> VStr s)"

text \<open>
  \<^verbatim>\<open>
  @property
  def remote_ip(self):
    if options.options.ip_header:
      return self.request.headers.get(options.options.ip_header)
    else:
      return self.request.transport.get_extra_info('peername')[0]
  \<close>
  Without a peer name, \<^verbatim>\<open>None[0]\<close> raises \<^verbatim>\<open>TypeError\<close>.
\<close>

definition remote_ip :: "options \<Rightarrow> 's view \<Rightarrow> error + val" where
  "remote_ip opts v =
     (case ip_header opts of
        Some h \<Rightarrow>
          if h \<noteq> [] then Inr (get_str (request_headers v) h)
          else (case peername v of
                  None \<Rightarrow> Inl (TypeError ''peername'')
                | Some (host, port) \<Rightarrow> Inr (VStr host))
      | None \<Rightarrow>
          (case peername v of
             None \<Rightarrow> Inl (TypeError ''peername'')
           | Some (host, port) \<Rightarrow> Inr (VStr host)))"

definition set_cookie :: "string \<Rightarrow> cookie \<Rightarrow> 's view \<Rightarrow> 's view" where
  "set_cookie name c v = v\<lparr>response := (response v)\<lparr>cookies := (cookies (response v))(name \<mapsto> c)\<rparr>\<rparr>"

text \<open>
  \<^verbatim>\<open>
  def clear_cookies(self, *names):
    for name in names:
      if name in self.request.cookies:
        self.response.set_cookie(name, '',
                                 expires=utils.formatdate(0, usegmt=True),
                                 domain=options.options.cookie_domain,
                                 secure=options.options.cookie_secure,
                                 httponly=True)
  \<close>
\<close>

definition cleared_cookie :: "options \<Rightarrow> cookie" where
  "cleared_cookie opts =
     \<lparr>cookie_value = [], expires = Some 0, max_age = None,
      domain_attr = cookie_domain opts, secure = cookie_secure opts, httponly = True\<rparr>"

fun clear_cookies :: "options \<Rightarrow> string list \<Rightarrow> 's view \<Rightarrow> 's view" where
  "clear_cookies opts [] v = v"
| "clear_cookies opts (name # names) v =
     clear_cookies opts names
       (if request_cookies v name \<noteq> None then set_cookie name (cleared_cookie opts) v else v)"

section \<open>\<^verbatim>\<open>ViewBase.update_session\<close> and \<^verbatim>\<open>ViewBase.delete_session\<close>\<close>

text \<open>
  The token type and the time to live that go with the flag \<^verbatim>\<open>save\<close>:
  \<^verbatim>\<open>
  if save:
    token_type = token.TYPE_SAVED_SESSION
    session_expire_seconds = options.options.saved_session_expire_seconds
  else:
    token_type = token.TYPE_UNSAVED_SESSION
    session_expire_seconds = options.options.unsaved_session_expire_seconds
  \<close>
\<close>

definition session_type :: "bool \<Rightarrow> token_type" where
  "session_type save = (if save then TYPE_SAVED_SESSION else TYPE_UNSAVED_SESSION)"

definition session_expire :: "options \<Rightarrow> bool \<Rightarrow> int" where
  "session_expire opts save =
     (if save then saved_session_expire_seconds opts else unsaved_session_expire_seconds opts)"

text \<open>
  The fields given to the Token Store:
  \<^verbatim>\<open>{**kwargs, 'update_ip': self.remote_ip, 'update_ua': self.request.headers.get('User-Agent')}\<close>
  on renewal, and the same with \<^verbatim>\<open>create_ip\<close> and \<^verbatim>\<open>create_ua\<close> on creation.
\<close>

definition update_fields :: "pydict \<Rightarrow> val \<Rightarrow> 's view \<Rightarrow> pydict" where
  "update_fields kwargs ip v =
     AList.update ''update_ua'' (get_str (request_headers v) ''User-Agent'')
       (AList.update ''update_ip'' ip kwargs)"

definition create_fields :: "pydict \<Rightarrow> val \<Rightarrow> 's view \<Rightarrow> pydict" where
  "create_fields kwargs ip v =
     AList.update ''create_ua'' (get_str (request_headers v) ''User-Agent'')
       (AList.update ''create_ip'' ip kwargs)"

text \<open>
  \<^verbatim>\<open>
  if sid:
    session = await token.update(sid, token_type, session_expire_seconds,
                                 **{**kwargs,
                                    'update_ip': self.remote_ip,
                                    'update_ua': self.request.headers.get('User-Agent')})
  \<close>
\<close>

definition session_renew ::
  "'s token_module \<Rightarrow> options \<Rightarrow> string option \<Rightarrow> token_type \<Rightarrow> int \<Rightarrow> pydict \<Rightarrow> 's view
   \<Rightarrow> (error + pydict option) \<times> 's view" where
  "session_renew tok opts sid token_type session_expire_seconds kwargs v =
     (case sid of
        None \<Rightarrow> (Inr None, v)
      | Some s \<Rightarrow>
          if s = [] then (Inr None, v)
          else (case remote_ip opts v of
                  Inl e \<Rightarrow> (Inl e, v)
                | Inr ip \<Rightarrow>
                    (let fields = update_fields kwargs ip v
                     in case token_update tok s token_type session_expire_seconds fields (store v) of
                          (sess, st) \<Rightarrow>
                            (Inr sess,
                             v\<lparr>store := st,
                               calls := calls v @
                                 [TokenUpdate s token_type session_expire_seconds fields]\<rparr>))))"

text \<open>
  \<^verbatim>\<open>
  if kwargs and not session:
    sid, session = await token.add(token_type, session_expire_seconds,
                                   **{**kwargs,
                                      'create_ip': self.remote_ip,
                                      'create_ua': self.request.headers.get('User-Agent')})
  \<close>
\<close>

definition session_create ::
  "'s token_module \<Rightarrow> options \<Rightarrow> string option \<Rightarrow> pydict option \<Rightarrow> token_type \<Rightarrow> int \<Rightarrow> pydict
   \<Rightarrow> 's view \<Rightarrow> (error + string option \<times> pydict option) \<times> 's view" where
  "session_create tok opts sid sess token_type session_expire_seconds kwargs v =
     (if kwargs \<noteq> [] \<and> \<not> truthy_dict sess then
        (case remote_ip opts v of
           Inl e \<Rightarrow> (Inl e, v)
         | Inr ip \<Rightarrow>
             (let fields = create_fields kwargs ip v
              in case token_add tok token_type session_expire_seconds fields (store v) of
                   ((new_sid, new_session), st) \<Rightarrow>
                     (Inr (Some new_sid, Some new_session),
                      v\<lparr>store := st,
                        calls := calls v @ [TokenAdd token_type session_expire_seconds fields]\<rparr>)))
      else (Inr (sid, sess), v))"

text \<open>
  \<^verbatim>\<open>
  if session:
    cookie_kwargs = {'domain': options.options.cookie_domain,
                     'secure': options.options.cookie_secure,
                     'httponly': True}
    if save:
      timestamp = calendar.timegm(session['expire_at'].utctimetuple())
      cookie_kwargs['expires'] = utils.formatdate(timestamp, usegmt=True)
      cookie_kwargs['max_age'] = session_expire_seconds
      self.response.set_cookie('save', '1', **cookie_kwargs)
    self.response.set_cookie('sid', sid, **cookie_kwargs)
  else:
    self.clear_cookies('sid', 'save')
  \<close>
  A session document without \<^verbatim>\<open>expire_at\<close> raises \<^verbatim>\<open>KeyError\<close>, one whose
  \<^verbatim>\<open>expire_at\<close> is no datetime raises \<^verbatim>\<open>AttributeError\<close>. Where this block runs
  with a session, \<open>sid\<close> is a string (the cookie's, or the one \<^verbatim>\<open>token.add\<close>
  returned); the branch for \<open>None\<close> is there for totality.
\<close>

definition session_cookie :: "options \<Rightarrow> string \<Rightarrow> int option \<Rightarrow> int option \<Rightarrow> cookie" where
  "session_cookie opts value exp age =
     \<lparr>cookie_value = value, expires = exp, max_age = age,
      domain_attr = cookie_domain opts, secure = cookie_secure opts, httponly = True\<rparr>"

definition session_cookies ::
  "options \<Rightarrow> string option \<Rightarrow> pydict option \<Rightarrow> bool \<Rightarrow> int \<Rightarrow> 's view \<Rightarrow> (error + unit) \<times> 's view" where
  "session_cookies opts sid sess save session_expire_seconds v =
     (case sess of
        None \<Rightarrow> (Inr (), clear_cookies opts [''sid'', ''save''] v)
      | Some doc \<Rightarrow>
          if doc = [] then (Inr (), clear_cookies opts [''sid'', ''save''] v)
          else (case sid of
                  None \<Rightarrow> (Inl (TypeError ''sid''), v)
                | Some s \<Rightarrow>
                    if save then
                      (case map_of doc ''expire_at'' of
                         None \<Rightarrow> (Inl (KeyError ''expire_at''), v)
                       | Some (VDatetime timestamp) \<Rightarrow>
                           (Inr (),
                            set_cookie ''sid''
                              (session_cookie opts s (Some timestamp) (Some session_expire_seconds))
                              (set_cookie ''save''
                                 (session_cookie opts ''1'' (Some timestamp)
                                    (Some session_expire_seconds)) v))
                       | Some _ \<Rightarrow> (Inl (AttributeError ''utctimetuple''), v))
                    else (Inr (), set_cookie ''sid'' (session_cookie opts s None None) v)))"

text \<open>
  \<^verbatim>\<open>
  async def update_session(self, *, new_saved=False, **kwargs):
    (sid, save), session = map(self.request.cookies.get, ['sid', 'save']), None
    if not sid:
      save = new_saved
    if save:
      token_type = token.TYPE_SAVED_SESSION
      session_expire_seconds = options.options.saved_session_expire_seconds
    else:
      token_type = token.TYPE_UNSAVED_SESSION
      session_expire_seconds = options.options.unsaved_session_expire_seconds
    ...
    return session or {}
  \<close>
  The result is the returned session document, or the exception raised, with the state
  reached.
\<close>

definition session_save :: "bool \<Rightarrow> 's view \<Rightarrow> bool" where
  "session_save new_saved v =
     (if \<not> truthy_str (request_cookies v ''sid'') then new_saved
      else truthy_str (request_cookies v ''save''))"

definition update_session ::
  "'s token_module \<Rightarrow> options \<Rightarrow> bool \<Rightarrow> pydict \<Rightarrow> 's view \<Rightarrow> (error + pydict) \<times> 's view" where
  "update_session tok opts new_saved kwargs v =
     (let sid = request_cookies v ''sid'';
          save = session_save new_saved v;
          token_type = session_type save;
          session_expire_seconds = session_expire opts save
      in case session_renew tok opts sid token_type session_expire_seconds kwargs v of
           (Inl e, v1) \<Rightarrow> (Inl e, v1)
         | (Inr sess, v1) \<Rightarrow>
             (case session_create tok opts sid sess token_type session_expire_seconds
                     kwargs v1 of
                (Inl e, v2) \<Rightarrow> (Inl e, v2)
              | (Inr (sid', sess'), v2) \<Rightarrow>
                  (case session_cookies opts sid' sess' save session_expire_seconds v2 of
                     (Inl e, v3) \<Rightarrow> (Inl e, v3)
                   | (Inr u, v3) \<Rightarrow>
                       (Inr (case sess' of None \<Rightarrow> [] | Some doc \<Rightarrow> doc), v3))))"

text \<open>
  \<^verbatim>\<open>
  async def delete_session(self):
    sid, save = map(self.request.cookies.get, ['sid', 'save'])
    if sid:
      if save:
        token_type = token.TYPE_SAVED_SESSION
      else:
        token_type = token.TYPE_UNSAVED_SESSION
      await token.delete(sid, token_type)
    self.clear_cookies('sid', 'save')
  \<close>
  The boolean that \<^verbatim>\<open>token.delete\<close> returns is dropped.
\<close>

definition session_delete_token :: "'s token_module \<Rightarrow> 's view \<Rightarrow> 's view" where
  "session_delete_token tok v =
     (case request_cookies v ''sid'' of
        None \<Rightarrow> v
      | Some s \<Rightarrow>
          if s = [] then v
          else (let token_type = session_type (truthy_str (request_cookies v ''save''))
                in case token_delete tok s token_type (store v) of
                     (found, st) \<Rightarrow>
                       v\<lparr>store := st, calls := calls v @ [TokenDelete s token_type]\<rparr>))"

definition delete_session :: "'s token_module \<Rightarrow> options \<Rightarrow> 's view \<Rightarrow> 's view" where
  "delete_session tok opts v = clear_cookies opts [''sid'', ''save''] (session_delete_token tok v)"

section \<open>The CSRF token\<close>

text \<open>
  \<^verbatim>\<open>functools.lru_cache()\<close> memoises a function in a table of at most
  \<^verbatim>\<open>maxsize\<close> entries (128 when not given), the most recently used first: a hit
  returns the stored result and moves the entry to the front, a miss calls the function,
  stores the result in front and drops the least recently used entry when the table is
  full. An exception of the function is not stored.
\<close>

definition lru_cache_call ::
  "nat \<Rightarrow> ('k \<Rightarrow> error + 'r) \<Rightarrow> 'k \<Rightarrow> ('k \<times> 'r) list \<Rightarrow> (error + 'r) \<times> ('k \<times> 'r) list" where
  "lru_cache_call maxsize f k cache =
     (case map_of cache k of
        Some r \<Rightarrow> (Inr r, (k, r) # AList.delete k cache)
      | None \<Rightarrow>
          (case f k of
             Inl e \<Rightarrow> (Inl e, cache)
           | Inr r \<Rightarrow> (Inr r, take maxsize ((k, r) # cache))))"

text \<open>
  \<^verbatim>\<open>
  def _get_csrf_token(session_id_binary):
    return hmac.new(b'csrf_token', session_id_binary, 'sha256').hexdigest()
  \<close>
  The parameter \<open>hmac_hexdigest key msg digestmod\<close> is Python's
  \<^verbatim>\<open>hmac.new(key, msg, digestmod).hexdigest()\<close> on byte strings; a message that is
  not a byte string raises \<^verbatim>\<open>TypeError\<close>.
\<close>

definition get_csrf_token_body ::
  "(string \<Rightarrow> string \<Rightarrow> string \<Rightarrow> string) \<Rightarrow> val \<Rightarrow> error + string" where
  "get_csrf_token_body hmac_hexdigest session_id_binary =
     (case session_id_binary of
        VBytes msg \<Rightarrow> Inr (hmac_hexdigest ''csrf_token'' msg ''sha256'')
      | _ \<Rightarrow> Inl (TypeError ''msg''))"

text \<open>The function as decorated: \<^verbatim>\<open>@functools.lru_cache()\<close>.\<close>

definition get_csrf_token ::
  "(string \<Rightarrow> string \<Rightarrow> string \<Rightarrow> string) \<Rightarrow> val \<Rightarrow> (val \<times> string) list
   \<Rightarrow> (error + string) \<times> (val \<times> string) list" where
  "get_csrf_token hmac_hexdigest session_id_binary cache =
     lru_cache_call 128 (get_csrf_token_body hmac_hexdigest) session_id_binary cache"

text \<open>
  The memo table starts empty and only the decorated function writes to it, so each of
  its entries is a result of the function.
\<close>

definition cache_of :: "('k \<Rightarrow> error + 'r) \<Rightarrow> ('k \<times> 'r) list \<Rightarrow> bool" where
  "cache_of f cache = list_all (\<lambda>(k, r). f k = Inr r) cache"

text \<open>
  \<^verbatim>\<open>
  @property
  def csrf_token(self):
    if self.session:
      return _get_csrf_token(self.session['_id'])
    else:
      return ''
  \<close>
\<close>

definition csrf_token ::
  "(string \<Rightarrow> string \<Rightarrow> string \<Rightarrow> string) \<Rightarrow> 's view \<Rightarrow> (error + string) \<times> 's view" where
  "csrf_token hmac_hexdigest v =
     (if session v \<noteq> [] then
        (case map_of (session v) ''_id'' of
           None \<Rightarrow> (Inl (KeyError ''_id''), v)
         | Some session_id \<Rightarrow>
             (case get_csrf_token hmac_hexdigest session_id (csrf_cache v) of
                (r, cache) \<Rightarrow> (r, v\<lparr>csrf_cache := cache\<rparr>)))
      else (Inr [], v))"

text \<open>
  \<^verbatim>\<open>
  def require_csrf_token(func):
    @functools.wraps(func)
    def wrapper(self, *args, **kwargs):
      if self.csrf_token and self.csrf_token != kwargs.pop('csrf_token', ''):
        raise error.CsrfTokenError()
      return func(self, *args, **kwargs)
    return wrapper
  \<close>
  The property is read once for the truth test and, when that is true, a second time
  for the comparison; only then is the field popped.
\<close>

definition require_csrf_token ::
  "(string \<Rightarrow> string \<Rightarrow> string \<Rightarrow> string) \<Rightarrow> (pydict \<Rightarrow> 's view \<Rightarrow> (error + 'r) \<times> 's view)
   \<Rightarrow> pydict \<Rightarrow> 's view \<Rightarrow> (error + 'r) \<times> 's view" where
  "require_csrf_token hmac_hexdigest func kwargs v =
     (case csrf_token hmac_hexdigest v of
        (Inl e, v1) \<Rightarrow> (Inl e, v1)
      | (Inr expected, v1) \<Rightarrow>
          if expected = [] then func kwargs v1
          else (case csrf_token hmac_hexdigest v1 of
                  (Inl e, v2) \<Rightarrow> (Inl e, v2)
                | (Inr expected2, v2) \<Rightarrow>
                    (let supplied = (case map_of kwargs ''csrf_token'' of
                                       None \<Rightarrow> VStr [] | Some x \<Rightarrow> x);
                         kwargs' = AList.delete ''csrf_token'' kwargs
                     in if VStr expected2 \<noteq> supplied then (Inl CsrfTokenError, v2)
                        else func kwargs' v2)))"

section \<open>\<^verbatim>\<open>OperationView.post\<close>\<close>

text \<open>
  \<^verbatim>\<open>
  async def post(self):
    arguments = (await self.request.post()).copy()
    operation = arguments.pop('operation')
    try:
      method = getattr(self, 'post_' + operation)
    except AttributeError:
      raise error.InvalidOperationError(operation) from None
    await method(**arguments)
  \<close>
  \<open>attrs\<close> is the attribute table of the view: the handlers its class defines, by
  name. \<^verbatim>\<open>pop\<close> without a default raises \<^verbatim>\<open>KeyError\<close> when the key is missing;
  \<^verbatim>\<open>'post_' + operation\<close> raises \<^verbatim>\<open>TypeError\<close> when the field is an uploaded
  file and not a string.
\<close>

definition OperationView_post ::
  "(string \<rightharpoonup> (pydict \<Rightarrow> 's view \<Rightarrow> (error + 'r) \<times> 's view)) \<Rightarrow> 's view \<Rightarrow> (error + unit) \<times> 's view" where
  "OperationView_post attrs v =
     (let arguments = request_post v
      in case map_of arguments ''operation'' of
           None \<Rightarrow> (Inl (KeyError ''operation''), v)
         | Some operation \<Rightarrow>
             (let arguments' = AList.delete ''operation'' arguments
              in case operation of
                   VStr name \<Rightarrow>
                     (case attrs (''post_'' @ name) of
                        None \<Rightarrow> (Inl (InvalidOperationError name), v)
                      | Some method \<Rightarrow>
                          (case method arguments' v of
                             (Inl e, v1) \<Rightarrow> (Inl e, v1)
                           | (Inr r, v1) \<Rightarrow> (Inr (), v1)))
                 | _ \<Rightarrow> (Inl (TypeError ''operation''), v)))"

section \<open>\<^verbatim>\<open>ViewBase.prepare\<close> and the dispatch wrapper \<^verbatim>\<open>View.__iter__\<close>\<close>

text \<open>
  The collaborators of a request: the token module, the options, the builtin constants,
  the user and domain lookups (\<^verbatim>\<open>user.get_by_uid\<close>, \<^verbatim>\<open>domain.get\<close>),
  \<^verbatim>\<open>accept.parse\<close>, and what the dispatch wrapper reads of a user-facing error
  (\<^verbatim>\<open>e.http_status\<close>, \<^verbatim>\<open>e.template_name\<close>, \<^verbatim>\<open>e.to_dict()\<close>). All are
  parameters.
\<close>

record 's env =
  env_token :: "'s token_module"
  env_options :: options
  env_builtin :: builtin
  user_get_by_uid :: "val \<Rightarrow> user_doc option"
  domain_get :: "string \<Rightarrow> domain_doc option"
  accept_parse :: "string option \<Rightarrow> error + media_range list"
  http_status :: "error \<Rightarrow> int"
  template_name :: "error \<Rightarrow> string"
  to_dict :: "error \<Rightarrow> json"

text \<open>
  \<^verbatim>\<open>
  async def prepare(self):
    self.session = await self.update_session()
    if self.session and 'uid' in self.session:
      self.user = await user.get_by_uid(self.session['uid']) or builtin.USER_GUEST
    else:
      self.user = builtin.USER_GUEST
    self.locale_context = _get_locale_context(self.get_setting('view_lang'), 'Asia/Shanghai')
    self.domain_id = self.request.match_info.pop('domain_id', builtin.DOMAIN_ID_SYSTEM)
    self.domain_context = self.get_domain_context(self.domain_id)
    self.reverse_url = self.domain_context['reverse_url']
    self.build_path = self.domain_context['build_path']
    self.domain = await domain.get(self.domain_id)
    if not self.domain:
      raise error.DomainNotFoundError(self.domain_id)
  \<close>
  The locale and domain contexts are values derived from the language setting and
  \<open>domain_id\<close>; a template reads them by name, and they are not part of the state.
\<close>

definition prepare :: "'s env \<Rightarrow> 's view \<Rightarrow> (error + unit) \<times> 's view" where
  "prepare env v =
     (case update_session (env_token env) (env_options env) False [] v of
        (Inl e, v1) \<Rightarrow> (Inl e, v1)
      | (Inr sess, v1) \<Rightarrow>
          (let usr =
                 (case (if sess \<noteq> [] then map_of sess ''uid'' else None) of
                    None \<Rightarrow> USER_GUEST (env_builtin env)
                  | Some uid \<Rightarrow>
                      (case user_get_by_uid env uid of
                         None \<Rightarrow> USER_GUEST (env_builtin env)
                       | Some u \<Rightarrow> u));
               did = dict_get (match_info v1) ''domain_id'' (DOMAIN_ID_SYSTEM (env_builtin env));
               v2 = v1\<lparr>session := sess, user := usr,
                       match_info := (match_info v1)(''domain_id'' := None),
                       domain_id := did, domain := domain_get env did\<rparr>
           in case domain_get env did of
                None \<Rightarrow> (Inl (DomainNotFoundError did), v2)
              | Some d \<Rightarrow> (Inr (), v2)))"

text \<open>
  \<^verbatim>\<open>
  def render(self, template_name, **kwargs):
    self.response.content_type = 'text/html'
    self.response.text = self.render_html(template_name, **kwargs)
  \<close>
\<close>

definition render :: "string \<Rightarrow> (string \<times> tval) list \<Rightarrow> 's view \<Rightarrow> 's view" where
  "render name kwargs v =
     v\<lparr>response := (response v)\<lparr>content_type := ''text/html'', resp_text := Rendered name kwargs\<rparr>\<rparr>"

text \<open>
  \<^verbatim>\<open>
  def __iter__(self):
    try:
      self.response = web.Response()
      yield from ViewBase.prepare(self)
      yield from super(View, self).__iter__()
    except error.UserFacingError as e:
      _logger.warning("User facing error: %s", repr(e))
      self.response.set_status(e.http_status, None)
      if self.prefer_json:
        self.response.content_type = 'application/json'
        self.response.text = json.encode({'error': e.to_dict()})
      else:
        self.render(e.template_name, error=e, path_components=self.build_path(('error', None)),
                    page_name='error', page_title=self.locale_context['_']('error'))
    return self.response
  \<close>
  \<open>handler\<close> is \<^verbatim>\<open>super(View, self).__iter__()\<close>: the method of the view that the
  request's HTTP method selects. The result is the response returned, or the exception
  that leaves \<^verbatim>\<open>__iter__\<close>. \<open>try_body\<close> is the \<^verbatim>\<open>try\<close> block and
  \<open>error_response\<close> the \<^verbatim>\<open>except\<close> block; an exception raised inside the
  \<^verbatim>\<open>except\<close> block (by \<^verbatim>\<open>self.prefer_json\<close>, after the warning and
  \<^verbatim>\<open>set_status\<close>) leaves \<^verbatim>\<open>__iter__\<close>, and no response is returned.
\<close>

definition try_body ::
  "'s env \<Rightarrow> ('s view \<Rightarrow> (error + 'r) \<times> 's view) \<Rightarrow> 's view \<Rightarrow> error option \<times> 's view" where
  "try_body env handler v =
     (case prepare env (v\<lparr>response := new_response\<rparr>) of
        (Inl e, v1) \<Rightarrow> (Some e, v1)
      | (Inr u, v1) \<Rightarrow>
          (case handler v1 of
             (Inl e, v2) \<Rightarrow> (Some e, v2)
           | (Inr r, v2) \<Rightarrow> (None, v2)))"

definition error_response :: "'s env \<Rightarrow> error \<Rightarrow> 's view \<Rightarrow> (error + unit) \<times> 's view" where
  "error_response env e v =
     (let v1 = v\<lparr>warnings := warnings v @ [e]\<rparr>;
          v2 = v1\<lparr>response := (response v1)\<lparr>status := http_status env e\<rparr>\<rparr>
      in case prefer_json (accept_parse env) (request_headers v2) of
           Inl x \<Rightarrow> (Inl x, v2)
         | Inr json_preferred \<Rightarrow>
             if json_preferred then
               (Inr (),
                v2\<lparr>response := (response v2)\<lparr>content_type := ''application/json'',
                      resp_text := JsonEncode (JDict [(''error'', to_dict env e)])\<rparr>\<rparr>)
             else
               (Inr (),
                render (template_name env e)
                  [(''error'', TError e),
                   (''path_components'', TBuildPath (domain_id v2) [(''error'', None)]),
                   (''page_name'', TStr ''error''),
                   (''page_title'', TTranslate ''error'')] v2))"

definition View_iter ::
  "'s env \<Rightarrow> ('s view \<Rightarrow> (error + 'r) \<times> 's view) \<Rightarrow> 's view \<Rightarrow> (error + response) \<times> 's view" where
  "View_iter env handler v =
     (case try_body env handler v of
        (None, v1) \<Rightarrow> (Inr (response v1), v1)
      | (Some e, v1) \<Rightarrow>
          if is_user_facing e then
            (case error_response env e v1 of
               (Inl x, v2) \<Rightarrow> (Inl x, v2)
             | (Inr u, v2) \<Rightarrow> (Inr (response v2), v2))
          else (Inl e, v1))"

section \<open>The problem-list controller\<close>

text \<open>
  Modelled from the spec: the module \<^verbatim>\<open>vj4.model.document\<close> is not among the
  sources. The specification gives its contract: \<^verbatim>\<open>get(domain_id, type, id)\<close> and
  \<^verbatim>\<open>set(domain_id, type, id, **fields)\<close>, keyed by (domain_id, type, id). The store is
  a table from keys to documents; \<^verbatim>\<open>get\<close> is the lookup, and \<^verbatim>\<open>set\<close> writes the
  given fields into the document of the key and returns the document as updated, or
  nothing when the key has no document.
\<close>

type_synonym doc_key = "string \<times> int \<times> val"

type_synonym doc_store = "doc_key \<rightharpoonup> pydict"

definition document_get :: "doc_store \<Rightarrow> string \<Rightarrow> int \<Rightarrow> val \<Rightarrow> pydict option" where
  "document_get st did doc_type doc_id = st (did, doc_type, doc_id)"

definition document_set ::
  "doc_store \<Rightarrow> string \<Rightarrow> int \<Rightarrow> val \<Rightarrow> pydict \<Rightarrow> pydict option \<times> doc_store" where
  "document_set st did doc_type doc_id flds =
     (case st (did, doc_type, doc_id) of
        None \<Rightarrow> (None, st)
      | Some doc \<Rightarrow>
          (Some (set_fields flds doc),
           st((did, doc_type, doc_id) \<mapsto> set_fields flds doc)))"

text \<open>
  \<^verbatim>\<open>
  async def get(domain_id: str, lid: document.convert_doc_id):
    # TODO(twd2): check if deleted?
    return await document.get(domain_id, document.TYPE_PROBLEM_LIST, lid)

  async def delete(domain_id: str, lid: document.convert_doc_id):
    return await document.set(domain_id, document.TYPE_PROBLEM_LIST, lid,
                              deleted=True)
  \<close>
  The constant \<^verbatim>\<open>document.TYPE_PROBLEM_LIST\<close> is the parameter \<open>ty\<close>.
\<close>

definition problemlist_get :: "int \<Rightarrow> doc_store \<Rightarrow> string \<Rightarrow> val \<Rightarrow> pydict option" where
  "problemlist_get ty st did lid = document_get st did ty lid"

definition problemlist_delete ::
  "int \<Rightarrow> doc_store \<Rightarrow> string \<Rightarrow> val \<Rightarrow> pydict option \<times> doc_store" where
  "problemlist_delete ty st did lid = document_set st did ty lid [(''deleted'', VBool True)]"

section \<open>Concrete inputs for the examples\<close>

text \<open>
  A parser for the examples: the media ranges of the header are separated by commas,
  each gives one entry, in the order of the header, and the wildcard \<^verbatim>\<open>*/*\<close> is the
  entry for all types; there is no entry without the header. A header with a parameter
  that has no value (a \<^verbatim>\<open>;\<close> and no \<^verbatim>\<open>=\<close>) is rejected with
  \<^verbatim>\<open>ValueError\<close>.
\<close>

fun split_on :: "char \<Rightarrow> string \<Rightarrow> string list" where
  "split_on c [] = [[]]"
| "split_on c (x # xs) =
     (if x = c then [] # split_on c xs
      else (case split_on c xs of
              [] \<Rightarrow> [[x]]
            | w # ws \<Rightarrow> (x # w) # ws))"

definition demo_parse :: "string option \<Rightarrow> error + media_range list" where
  "demo_parse h =
     (case h of
        None \<Rightarrow> Inr []
      | Some x \<Rightarrow>
          if CHR '';'' \<in> set x \<and> CHR ''='' \<notin> set x then Inl (ValueError ''parameter'')
          else Inr (map (\<lambda>m. \<lparr>media_type = m, all_types = (m = ''*/*'')\<rparr>)
                      (split_on CHR '','' x)))"

definition demo_builtin :: builtin where
  "demo_builtin =
     \<lparr>ROLE_DEFAULT = ''default'', PERM_NONE = 0,
      USER_GUEST = \<lparr>user_id = 1, user_roles = Map.empty, user_priv = 0\<rparr>,
      DOMAIN_ID_SYSTEM = ''system''\<rparr>"

definition demo_owner :: user_doc where
  "demo_owner = \<lparr>user_id = 7, user_roles = Map.empty, user_priv = 0\<rparr>"

definition demo_member :: user_doc where
  "demo_member = \<lparr>user_id = 8, user_roles = Map.empty, user_priv = 0\<rparr>"

definition demo_domain :: domain_doc where
  "demo_domain = \<lparr>owner_uid = 7, domain_roles = [''default'' \<mapsto> 1]\<rparr>"

text \<open>
  A small Token Store for the examples, after the contract of the specification: a
  table from session ids to session documents. \<^verbatim>\<open>update\<close> writes the fields into the
  document of a known id and finds nothing for an unknown one, \<^verbatim>\<open>add\<close> stores a new
  document with its id and its expiry (the clock stands at 0, so the expiry is the time
  to live), \<^verbatim>\<open>delete\<close> reports whether the id was known.
\<close>

definition demo_token :: "(string \<times> pydict) list token_module" where
  "demo_token =
     \<lparr>token_update = (\<lambda>sid ty ttl flds st.
        case map_of st sid of
          None \<Rightarrow> (None, st)
        | Some doc \<Rightarrow> (Some (set_fields flds doc), AList.update sid (set_fields flds doc) st)),
      token_add = (\<lambda>ty ttl flds st.
        ((''new'', (''_id'', VBytes ''new'') # (''expire_at'', VDatetime ttl) # flds),
         (''new'', (''_id'', VBytes ''new'') # (''expire_at'', VDatetime ttl) # flds) # st)),
      token_delete = (\<lambda>sid ty st. (map_of st sid \<noteq> None, AList.delete sid st))\<rparr>"

definition demo_options :: options where
  "demo_options =
     \<lparr>saved_session_expire_seconds = 2592000, unsaved_session_expire_seconds = 10800,
      cookie_domain = VNone, cookie_secure = VBool False, ip_header = None\<rparr>"

text \<open>A request with the given cookies, on a Token Store with the given table.\<close>

definition demo_view ::
  "(string \<rightharpoonup> string) \<Rightarrow> (string \<times> pydict) list \<Rightarrow> (string \<times> pydict) list view" where
  "demo_view cs st =
     \<lparr>request_cookies = cs, request_headers = [''User-Agent'' \<mapsto> ''curl''],
      peername = Some (''10.0.0.1'', 4000), match_info = Map.empty, request_post = [],
      response = new_response, session = [],
      user = \<lparr>user_id = 1, user_roles = Map.empty, user_priv = 0\<rparr>,
      domain_id = [], domain = None, store = st, calls = [], warnings = [],
      csrf_cache = []\<rparr>"

text \<open>
  A stand-in for \<^verbatim>\<open>hmac.new(key, msg, digestmod).hexdigest()\<close>, and the collaborators
  of a request: a user store with the user 7, a domain store with the domain
  \<^verbatim>\<open>system\<close>, and status codes, template and dictionary for the errors.
\<close>

definition demo_hmac :: "string \<Rightarrow> string \<Rightarrow> string \<Rightarrow> string" where
  "demo_hmac key msg digestmod = digestmod @ '':'' @ key @ '':'' @ msg"

fun demo_status :: "error \<Rightarrow> int" where
  "demo_status (DomainNotFoundError _) = 404"
| "demo_status (InvalidOperationError _) = 400"
| "demo_status _ = 403"

definition demo_env :: "(string \<times> pydict) list env" where
  "demo_env =
     \<lparr>env_token = demo_token, env_options = demo_options, env_builtin = demo_builtin,
      user_get_by_uid = (\<lambda>uid. if uid = VInt 7 then Some demo_owner else None),
      domain_get = (\<lambda>d. if d = ''system'' then Some demo_domain else None),
      accept_parse = demo_parse,
      http_status = demo_status,
      template_name = (\<lambda>e. ''error.html''),
      to_dict = (\<lambda>e. JDict [(''code'', JVal (VInt (demo_status e)))])\<rparr>"

text \<open>A view class with one operation, \<^verbatim>\<open>post_set_star\<close>, that accepts any arguments.\<close>

definition demo_attrs ::
  "string \<rightharpoonup> (pydict \<Rightarrow> (string \<times> pydict) list view
     \<Rightarrow> (error + unit) \<times> (string \<times> pydict) list view)" where
  "demo_attrs = [''post_set_star'' \<mapsto> (\<lambda>kw w. (Inr (), w))]"

section \<open>Content negotiation\<close>




text \<open>For a header that the parser rejects there is no answer: the parser's error is raised.\<close>

lemma prefer_json_parse_raises:
  "parse (headers ''Accept'') = Inl e \<Longrightarrow> prefer_json parse headers = Inl e"
  by (simp add: prefer_json_def)



section \<open>Permissions\<close>

text \<open>
  Claim C2. For every user, domain and permission bitmask, \<^verbatim>\<open>has_perm\<close> passes exactly
  when the requested bits are all in the mask of the user's role in the domain (the
  default role when the user has none there, the no-permission mask when the domain
  gives the role none) or the user is the owner of the domain; so the owner passes for
  every requested bitmask, and \<^verbatim>\<open>check_perm\<close> does not raise for the owner.
\<close>

theorem has_perm_mask_or_owner:
  "(has_perm b usr did dm perm
      \<longleftrightarrow> (perm AND permission_mask b dm (effective_role b usr did)) = perm
          \<or> user_id usr = owner_uid dm)
   \<and> has_perm b usr did dm perm = spec_has_permission b usr did dm perm
   \<and> (user_id usr = owner_uid dm
        \<longrightarrow> has_perm b usr did dm perm \<and> check_perm b usr did dm perm = Inr ())"
  by (auto simp: has_perm_def spec_has_permission_def effective_role_def permission_mask_def
      check_perm_def dict_get_def Let_def split: option.splits)

theorem has_perm_mask_or_owner_witness:
  "user_id demo_owner = owner_uid demo_domain
   \<and> (6 AND permission_mask demo_builtin demo_domain
          (effective_role demo_builtin demo_owner ''system'')) \<noteq> (6::int)
   \<and> has_perm demo_builtin demo_owner ''system'' demo_domain 6
   \<and> check_perm demo_builtin demo_owner ''system'' demo_domain 6 = Inr ()
   \<and> \<not> has_perm demo_builtin demo_member ''system'' demo_domain 6
   \<and> has_perm demo_builtin demo_member ''system'' demo_domain 1"
  using has_perm_mask_or_owner [of demo_builtin demo_owner "''system''" demo_domain 6]
    has_perm_mask_or_owner [of demo_builtin demo_member "''system''" demo_domain 6]
    has_perm_mask_or_owner [of demo_builtin demo_member "''system''" demo_domain 1]
  by (simp add: demo_builtin_def demo_owner_def demo_member_def demo_domain_def
      permission_mask_def effective_role_def)

section \<open>Sessions\<close>

subsection \<open>What the cookie writers leave alone\<close>

lemma set_cookie_frame [simp]:
  "store (set_cookie name c v) = store v"
  "calls (set_cookie name c v) = calls v"
  "request_cookies (set_cookie name c v) = request_cookies v"
  "cookies (response (set_cookie name c v)) = (cookies (response v))(name \<mapsto> c)"
  by (simp_all add: set_cookie_def)

lemma clear_cookies_frame [simp]:
  "store (clear_cookies opts names v) = store v"
  "calls (clear_cookies opts names v) = calls v"
  "request_cookies (clear_cookies opts names v) = request_cookies v"
  by (induction names arbitrary: v) auto

lemma session_cookies_frame [simp]:
  "store (snd (session_cookies opts sid sess save ttl v)) = store v"
  "calls (snd (session_cookies opts sid sess save ttl v)) = calls v"
  by (auto simp: session_cookies_def split: option.splits val.splits)

lemma remote_ip_frame [simp]:
  "remote_ip opts (v\<lparr>store := st, calls := cs\<rparr>) = remote_ip opts v"
  by (simp add: remote_ip_def split: option.splits)

lemma create_fields_frame [simp]:
  "create_fields kwargs ip (v\<lparr>store := st, calls := cs\<rparr>) = create_fields kwargs ip v"
  by (simp add: create_fields_def)

subsection \<open>The three blocks of \<^verbatim>\<open>update_session\<close>, case by case\<close>

lemma session_renew_no_sid:
  "\<not> truthy_str sid \<Longrightarrow> session_renew tok opts sid ty ttl kwargs v = (Inr None, v)"
  by (auto simp: session_renew_def truthy_str_def split: option.splits)

lemma session_renew_error:
  "truthy_str sid \<Longrightarrow> remote_ip opts v = Inl e \<Longrightarrow>
   session_renew tok opts sid ty ttl kwargs v = (Inl e, v)"
  by (auto simp: session_renew_def truthy_str_def split: option.splits)

lemma session_renew_update:
  "sid = Some s \<Longrightarrow> s \<noteq> [] \<Longrightarrow> remote_ip opts v = Inr ip \<Longrightarrow>
   session_renew tok opts sid ty ttl kwargs v
     = (Inr (fst (token_update tok s ty ttl (update_fields kwargs ip v) (store v))),
        v\<lparr>store := snd (token_update tok s ty ttl (update_fields kwargs ip v) (store v)),
          calls := calls v @ [TokenUpdate s ty ttl (update_fields kwargs ip v)]\<rparr>)"
  by (simp add: session_renew_def Let_def split: prod.splits)

lemma session_create_skip:
  "kwargs = [] \<or> truthy_dict sess \<Longrightarrow>
   session_create tok opts sid sess ty ttl kwargs v = (Inr (sid, sess), v)"
  by (auto simp: session_create_def)

lemma session_create_error:
  "kwargs \<noteq> [] \<Longrightarrow> \<not> truthy_dict sess \<Longrightarrow> remote_ip opts v = Inl e \<Longrightarrow>
   session_create tok opts sid sess ty ttl kwargs v = (Inl e, v)"
  by (simp add: session_create_def)

lemma session_create_add:
  "kwargs \<noteq> [] \<Longrightarrow> \<not> truthy_dict sess \<Longrightarrow> remote_ip opts v = Inr ip \<Longrightarrow>
   session_create tok opts sid sess ty ttl kwargs v
     = (Inr (Some (fst (fst (token_add tok ty ttl (create_fields kwargs ip v) (store v)))),
             Some (snd (fst (token_add tok ty ttl (create_fields kwargs ip v) (store v))))),
        v\<lparr>store := snd (token_add tok ty ttl (create_fields kwargs ip v) (store v)),
          calls := calls v @ [TokenAdd ty ttl (create_fields kwargs ip v)]\<rparr>)"
  by (simp add: session_create_def Let_def split: prod.splits)

lemma update_session_cookies_phase:
  "session_renew tok opts (request_cookies v ''sid'') (session_type (session_save new_saved v))
     (session_expire opts (session_save new_saved v)) kwargs v = (Inr sess, v1) \<Longrightarrow>
   session_create tok opts (request_cookies v ''sid'') sess
     (session_type (session_save new_saved v))
     (session_expire opts (session_save new_saved v)) kwargs v1 = (Inr (sid', sess'), v2) \<Longrightarrow>
   update_session tok opts new_saved kwargs v
     = (case session_cookies opts sid' sess' (session_save new_saved v)
              (session_expire opts (session_save new_saved v)) v2 of
          (Inl e, v3) \<Rightarrow> (Inl e, v3)
        | (Inr u, v3) \<Rightarrow> (Inr (case sess' of None \<Rightarrow> [] | Some doc \<Rightarrow> doc), v3))"
  by (simp add: update_session_def Let_def)

lemma update_session_snd:
  assumes "session_renew tok opts (request_cookies v ''sid'')
     (session_type (session_save new_saved v))
     (session_expire opts (session_save new_saved v)) kwargs v = (Inr sess, v1)"
    and "session_create tok opts (request_cookies v ''sid'') sess
     (session_type (session_save new_saved v))
     (session_expire opts (session_save new_saved v)) kwargs v1 = (Inr (sid', sess'), v2)"
  shows "snd (update_session tok opts new_saved kwargs v)
     = snd (session_cookies opts sid' sess' (session_save new_saved v)
              (session_expire opts (session_save new_saved v)) v2)"
  by (simp add: update_session_cookies_phase [OF assms] split: prod.splits sum.splits)

lemma update_session_frame:
  assumes "session_renew tok opts (request_cookies v ''sid'')
     (session_type (session_save new_saved v))
     (session_expire opts (session_save new_saved v)) kwargs v = (Inr sess, v1)"
    and "session_create tok opts (request_cookies v ''sid'') sess
     (session_type (session_save new_saved v))
     (session_expire opts (session_save new_saved v)) kwargs v1 = (Inr (sid', sess'), v2)"
  shows "calls (snd (update_session tok opts new_saved kwargs v)) = calls v2"
    and "store (snd (update_session tok opts new_saved kwargs v)) = store v2"
  by (simp_all only: update_session_snd [OF assms] session_cookies_frame)

lemma update_session_error_renew:
  "truthy_str (request_cookies v ''sid'') \<Longrightarrow> remote_ip opts v = Inl e \<Longrightarrow>
   update_session tok opts new_saved kwargs v = (Inl e, v)"
  by (simp add: update_session_def Let_def session_renew_error)

lemma update_session_error_create:
  "\<not> truthy_str (request_cookies v ''sid'') \<Longrightarrow> kwargs \<noteq> [] \<Longrightarrow> remote_ip opts v = Inl e \<Longrightarrow>
   update_session tok opts new_saved kwargs v = (Inl e, v)"
  by (simp add: update_session_def Let_def session_renew_no_sid session_create_error
      truthy_dict_def)

text \<open>The definitions that evaluate a session operation on a concrete request.\<close>

lemmas demo_simps =
  update_session_def session_renew_def session_create_def session_cookies_def
  session_save_def session_type_def session_expire_def create_fields_def update_fields_def
  remote_ip_def get_str_def truthy_str_def truthy_dict_def set_cookie_def session_cookie_def
  demo_view_def demo_token_def demo_options_def new_response_def Let_def

subsection \<open>The calls that \<^verbatim>\<open>update_session\<close> makes to the Token Store\<close>

lemma update_session_calls_no_sid:
  assumes "\<not> truthy_str (request_cookies v ''sid'')"
  shows "calls (snd (update_session tok opts new_saved kwargs v)) = calls v @
     (if kwargs = [] then []
      else case remote_ip opts v of
             Inl e \<Rightarrow> []
           | Inr ip \<Rightarrow>
               [TokenAdd (session_type new_saved) (session_expire opts new_saved)
                  (create_fields kwargs ip v)])"
proof (cases "kwargs = []")
  case True
  then show ?thesis
    using assms
    by (simp add: update_session_frame [OF session_renew_no_sid session_create_skip])
next
  case False
  show ?thesis
  proof (cases "remote_ip opts v")
    case (Inl e)
    then show ?thesis using assms False by (simp add: update_session_error_create)
  next
    case (Inr ip)
    have save: "session_save new_saved v = new_saved"
      using assms by (simp add: session_save_def)
    show ?thesis
      using assms False Inr
      by (simp add: update_session_frame [OF session_renew_no_sid session_create_add]
          truthy_dict_def save)
  qed
qed

lemma update_session_calls_sid:
  assumes sid: "request_cookies v ''sid'' = Some s" "s \<noteq> []"
  shows "calls (snd (update_session tok opts new_saved kwargs v)) = calls v @
     (case remote_ip opts v of
        Inl e \<Rightarrow> []
      | Inr ip \<Rightarrow>
          TokenUpdate s (session_type (truthy_str (request_cookies v ''save'')))
            (session_expire opts (truthy_str (request_cookies v ''save'')))
            (update_fields kwargs ip v)
          # (if kwargs \<noteq> []
                \<and> \<not> truthy_dict (fst (token_update tok s
                       (session_type (truthy_str (request_cookies v ''save'')))
                       (session_expire opts (truthy_str (request_cookies v ''save'')))
                       (update_fields kwargs ip v) (store v)))
             then [TokenAdd (session_type (truthy_str (request_cookies v ''save'')))
                     (session_expire opts (truthy_str (request_cookies v ''save'')))
                     (create_fields kwargs ip v)]
             else []))"
proof -
  have t: "truthy_str (request_cookies v ''sid'')"
    using sid by (simp add: truthy_str_def)
  then have save: "session_save new_saved v = truthy_str (request_cookies v ''save'')"
    by (simp add: session_save_def)
  show ?thesis
  proof (cases "remote_ip opts v")
    case (Inl e)
    then show ?thesis using t by (simp add: update_session_error_renew)
  next
    case (Inr ip)
    note renew = session_renew_update [OF sid(1) sid(2) Inr]
    show ?thesis
    proof (cases "kwargs \<noteq> []
                \<and> \<not> truthy_dict (fst (token_update tok s
                       (session_type (truthy_str (request_cookies v ''save'')))
                       (session_expire opts (truthy_str (request_cookies v ''save'')))
                       (update_fields kwargs ip v) (store v)))")
      case True
      show ?thesis
        using True Inr
        by (simp add: update_session_frame [OF renew session_create_add] save)
    next
      case False
      then show ?thesis
        using Inr
        by (simp add: update_session_frame [OF renew session_create_skip] save)
    qed
  qed
qed


subsection \<open>No cookie and no data: nothing is written\<close>

lemma update_session_no_sid_no_data:
  assumes "\<not> truthy_str (request_cookies v ''sid'')"
  shows "update_session tok opts new_saved [] v = (Inr [], clear_cookies opts [''sid'', ''save''] v)"
  using assms
  by (simp add: update_session_cookies_phase [OF session_renew_no_sid session_create_skip]
      session_cookies_def)

text \<open>
  Claim C3. For every request without a \<^verbatim>\<open>sid\<close> cookie and with empty extra data,
  \<^verbatim>\<open>update_session\<close> returns the empty session and makes no call to the Token Store
  (its state is as before). In every call, a token is added only when the extra data is
  not empty and no session was resolved from the \<^verbatim>\<open>sid\<close> cookie: the cookie is absent
  or empty, or the update made for it found no session.
\<close>

theorem update_session_token_writes:
  "(request_cookies v ''sid'' = None \<longrightarrow>
      fst (update_session tok opts new_saved [] v) = Inr []
      \<and> store (snd (update_session tok opts new_saved [] v)) = store v
      \<and> calls (snd (update_session tok opts new_saved [] v)) = calls v)
   \<and> (\<exists>cs. calls (snd (update_session tok opts new_saved kwargs v)) = calls v @ cs
        \<and> ((\<exists>ty ttl f. TokenAdd ty ttl f \<in> set cs) \<longrightarrow>
             kwargs \<noteq> []
             \<and> (\<not> truthy_str (request_cookies v ''sid'')
                \<or> (\<exists>s ty ttl f. request_cookies v ''sid'' = Some s
                      \<and> TokenUpdate s ty ttl f \<in> set cs
                      \<and> \<not> truthy_dict (fst (token_update tok s ty ttl f (store v)))))))"
proof (intro conjI impI)
  assume "request_cookies v ''sid'' = None"
  then have n: "\<not> truthy_str (request_cookies v ''sid'')"
    by (simp add: truthy_str_def)
  show "fst (update_session tok opts new_saved [] v) = Inr []"
    and "store (snd (update_session tok opts new_saved [] v)) = store v"
    and "calls (snd (update_session tok opts new_saved [] v)) = calls v"
    by (simp_all add: update_session_no_sid_no_data [OF n])
next
  show "\<exists>cs. calls (snd (update_session tok opts new_saved kwargs v)) = calls v @ cs
        \<and> ((\<exists>ty ttl f. TokenAdd ty ttl f \<in> set cs) \<longrightarrow>
             kwargs \<noteq> []
             \<and> (\<not> truthy_str (request_cookies v ''sid'')
                \<or> (\<exists>s ty ttl f. request_cookies v ''sid'' = Some s
                      \<and> TokenUpdate s ty ttl f \<in> set cs
                      \<and> \<not> truthy_dict (fst (token_update tok s ty ttl f (store v))))))"
  proof (cases "truthy_str (request_cookies v ''sid'')")
    case False
    show ?thesis
      using False
      by (auto simp: update_session_calls_no_sid [OF False] split: sum.splits)
  next
    case True
    then obtain s where sid: "request_cookies v ''sid'' = Some s" "s \<noteq> []"
      by (auto simp: truthy_str_def split: option.splits)
    show ?thesis
      by (auto simp: update_session_calls_sid [OF sid] sid split: sum.splits if_splits)
  qed
qed

theorem update_session_token_writes_witness:
  "request_cookies (demo_view Map.empty []) ''sid'' = None
   \<and> update_session demo_token demo_options True [] (demo_view Map.empty [])
       = (Inr [], demo_view Map.empty [])
   \<and> calls (snd (update_session demo_token demo_options False [(''uid'', VInt 5)]
                  (demo_view Map.empty [])))
       = [TokenAdd TYPE_UNSAVED_SESSION 10800
            [(''uid'', VInt 5), (''create_ip'', VStr ''10.0.0.1''), (''create_ua'', VStr ''curl'')]]
   \<and> calls (snd (update_session demo_token demo_options False [(''uid'', VInt 5)]
                  (demo_view [''sid'' \<mapsto> ''gone''] [])))
       = [TokenUpdate ''gone'' TYPE_UNSAVED_SESSION 10800
            [(''uid'', VInt 5), (''update_ip'', VStr ''10.0.0.1''), (''update_ua'', VStr ''curl'')],
          TokenAdd TYPE_UNSAVED_SESSION 10800
            [(''uid'', VInt 5), (''create_ip'', VStr ''10.0.0.1''), (''create_ua'', VStr ''curl'')]]
   \<and> \<not> truthy_dict (fst (token_update demo_token ''gone'' TYPE_UNSAVED_SESSION 10800
            [(''uid'', VInt 5), (''update_ip'', VStr ''10.0.0.1''), (''update_ua'', VStr ''curl'')]
            (store (demo_view [''sid'' \<mapsto> ''gone''] []))))"
  using update_session_token_writes [of "demo_view Map.empty []" demo_token demo_options True
      "[(''uid'', VInt 5)]"]
  by (simp add: update_session_def session_renew_def session_create_def session_cookies_def
      session_save_def session_type_def session_expire_def create_fields_def update_fields_def
      remote_ip_def get_str_def truthy_str_def truthy_dict_def set_cookie_def
      demo_view_def demo_token_def demo_options_def Let_def)

subsection \<open>Deleting a session\<close>

lemma session_delete_token_frame [simp]:
  "response (session_delete_token tok v) = response v"
  "request_cookies (session_delete_token tok v) = request_cookies v"
  by (auto simp: session_delete_token_def Let_def split: option.splits prod.splits)

lemma clear_cookies_response:
  "response v = response v' \<Longrightarrow> request_cookies v = request_cookies v' \<Longrightarrow>
   response (clear_cookies opts names v) = response (clear_cookies opts names v')"
  by (induction names arbitrary: v v') (auto simp: set_cookie_def)

lemma clear_cookies_sid_save:
  "cookies (response (clear_cookies opts [''sid'', ''save''] v)) ''sid''
     = (if request_cookies v ''sid'' = None then cookies (response v) ''sid''
        else Some (cleared_cookie opts))"
  "cookies (response (clear_cookies opts [''sid'', ''save''] v)) ''save''
     = (if request_cookies v ''save'' = None then cookies (response v) ''save''
        else Some (cleared_cookie opts))"
  by auto

text \<open>
  Claim C4, as amended. For every state of the request's cookies and every Token Store
  (so every result of its delete, found or not), \<^verbatim>\<open>delete_session\<close> calls the delete
  of the store exactly when the \<^verbatim>\<open>sid\<close> cookie is present and not empty, for that id
  and the type inferred from the \<^verbatim>\<open>save\<close> cookie, and then clears each of the cookies
  \<^verbatim>\<open>sid\<close> and \<^verbatim>\<open>save\<close> that the request carries (empty value, expiry at the
  epoch); the response is the same whatever the store answers. A cookie that the request
  does not carry is not set.
\<close>

theorem delete_session_clears_carried_cookies:
  "calls (delete_session tok opts v) = calls v @
     (case request_cookies v ''sid'' of
        None \<Rightarrow> []
      | Some s \<Rightarrow>
          if s = [] then []
          else [TokenDelete s (if truthy_str (request_cookies v ''save'')
                               then TYPE_SAVED_SESSION else TYPE_UNSAVED_SESSION)])
   \<and> response (delete_session tok opts v) = response (clear_cookies opts [''sid'', ''save''] v)
   \<and> cookies (response (delete_session tok opts v)) ''sid''
       = (if request_cookies v ''sid'' = None then cookies (response v) ''sid''
          else Some (cleared_cookie opts))
   \<and> cookies (response (delete_session tok opts v)) ''save''
       = (if request_cookies v ''save'' = None then cookies (response v) ''save''
          else Some (cleared_cookie opts))
   \<and> cookie_value (cleared_cookie opts) = [] \<and> expires (cleared_cookie opts) = Some 0"
proof -
  have r: "response (delete_session tok opts v) = response (clear_cookies opts [''sid'', ''save''] v)"
    unfolding delete_session_def by (rule clear_cookies_response) simp_all
  have c: "calls (delete_session tok opts v) = calls v @
     (case request_cookies v ''sid'' of
        None \<Rightarrow> []
      | Some s \<Rightarrow>
          if s = [] then []
          else [TokenDelete s (if truthy_str (request_cookies v ''save'')
                               then TYPE_SAVED_SESSION else TYPE_UNSAVED_SESSION)])"
    by (simp add: delete_session_def session_delete_token_def session_type_def Let_def
        split: option.splits prod.splits)
  show ?thesis
    unfolding r using c unfolding r
    by (simp only: clear_cookies_sid_save cleared_cookie_def cookie.simps simp_thms)
qed

theorem delete_session_clears_carried_cookies_witness:
  "calls (delete_session demo_token demo_options
            (demo_view [''sid'' \<mapsto> ''abc'', ''save'' \<mapsto> ''1''] [(''abc'', [(''_id'', VBytes ''abc'')])]))
     = [TokenDelete ''abc'' TYPE_SAVED_SESSION]
   \<and> store (delete_session demo_token demo_options
            (demo_view [''sid'' \<mapsto> ''abc'', ''save'' \<mapsto> ''1''] [(''abc'', [(''_id'', VBytes ''abc'')])]))
     = []
   \<and> cookies (response (delete_session demo_token demo_options
            (demo_view [''sid'' \<mapsto> ''abc'', ''save'' \<mapsto> ''1''] [(''abc'', [(''_id'', VBytes ''abc'')])]))) ''sid''
     = Some \<lparr>cookie_value = [], expires = Some 0, max_age = None,
              domain_attr = VNone, secure = VBool False, httponly = True\<rparr>
   \<and> cookies (response (delete_session demo_token demo_options
            (demo_view [''sid'' \<mapsto> ''abc'', ''save'' \<mapsto> ''1''] [(''abc'', [(''_id'', VBytes ''abc'')])]))) ''save''
     = Some \<lparr>cookie_value = [], expires = Some 0, max_age = None,
              domain_attr = VNone, secure = VBool False, httponly = True\<rparr>"
  using delete_session_clears_carried_cookies [of demo_token demo_options
      "demo_view [''sid'' \<mapsto> ''abc'', ''save'' \<mapsto> ''1''] [(''abc'', [(''_id'', VBytes ''abc'')])]"]
  by (simp add: delete_session_def session_delete_token_def cleared_cookie_def demo_simps)

text \<open>
  Claim C4 as stated fails: for a request with the cookie \<^verbatim>\<open>sid\<close> alone (an unsaved
  session), the token is deleted and \<^verbatim>\<open>sid\<close> is cleared, but no \<^verbatim>\<open>save\<close> cookie
  is set in the response.
\<close>

theorem delete_session_save_cookie_not_set:
  "request_cookies (demo_view [''sid'' \<mapsto> ''abc''] []) ''sid'' = Some ''abc''
   \<and> calls (delete_session demo_token demo_options (demo_view [''sid'' \<mapsto> ''abc''] []))
       = [TokenDelete ''abc'' TYPE_UNSAVED_SESSION]
   \<and> cookies (response (delete_session demo_token demo_options
                           (demo_view [''sid'' \<mapsto> ''abc''] []))) ''sid''
       = Some (cleared_cookie demo_options)
   \<and> cookies (response (delete_session demo_token demo_options
                           (demo_view [''sid'' \<mapsto> ''abc''] []))) ''save'' = None"
  by (simp add: delete_session_def session_delete_token_def session_type_def truthy_str_def
      set_cookie_def demo_view_def demo_token_def new_response_def Let_def)

subsection \<open>Creating a session\<close>

lemma update_session_create_result:
  assumes "\<not> truthy_str (request_cookies v ''sid'')" "kwargs \<noteq> []" "remote_ip opts v = Inr ip"
    and "token_add tok (session_type new_saved) (session_expire opts new_saved)
           (create_fields kwargs ip v) (store v) = ((new_sid, doc), st)"
  shows "update_session tok opts new_saved kwargs v
     = (case session_cookies opts (Some new_sid) (Some doc) new_saved
              (session_expire opts new_saved)
              (v\<lparr>store := st,
                 calls := calls v @ [TokenAdd (session_type new_saved)
                   (session_expire opts new_saved) (create_fields kwargs ip v)]\<rparr>) of
          (Inl e, v3) \<Rightarrow> (Inl e, v3)
        | (Inr u, v3) \<Rightarrow> (Inr doc, v3))"
proof -
  have save: "session_save new_saved v = new_saved"
    using assms(1) by (simp add: session_save_def)
  have n: "\<not> truthy_dict None" by (simp add: truthy_dict_def)
  show ?thesis
    using assms(4)
    by (simp add: update_session_cookies_phase
        [OF session_renew_no_sid [OF assms(1)] session_create_add [OF assms(2) n assms(3)]] save
        split: prod.splits sum.splits)
qed

text \<open>
  Claim C6. For every call of \<^verbatim>\<open>update_session\<close> without a \<^verbatim>\<open>sid\<close> cookie and
  with extra data that creates a session: with \<^verbatim>\<open>new_saved\<close> true the token is added
  with the saved type and time to live, and the cookies \<^verbatim>\<open>sid\<close> and \<^verbatim>\<open>save\<close> are
  set with \<^verbatim>\<open>expires\<close> (the expiry of the session) and \<^verbatim>\<open>max_age\<close>; with
  \<^verbatim>\<open>new_saved\<close> false the token is added with the unsaved type and the \<^verbatim>\<open>sid\<close>
  cookie is set without \<^verbatim>\<open>expires\<close> and \<^verbatim>\<open>max_age\<close>. With a \<^verbatim>\<open>sid\<close> cookie
  whose renewal finds no session, and extra data, the token is added with the type
  inferred from the \<^verbatim>\<open>save\<close> cookie, whatever \<^verbatim>\<open>new_saved\<close> is.
\<close>

theorem update_session_creates_by_mode:
  "(request_cookies v ''sid'' = None \<and> kwargs \<noteq> [] \<and> remote_ip opts v = Inr ip
      \<and> token_add tok TYPE_SAVED_SESSION (saved_session_expire_seconds opts)
           (create_fields kwargs ip v) (store v) = ((new_sid, doc), st)
      \<and> map_of doc ''expire_at'' = Some (VDatetime t)
    \<longrightarrow> fst (update_session tok opts True kwargs v) = Inr doc
        \<and> calls (snd (update_session tok opts True kwargs v))
            = calls v @ [TokenAdd TYPE_SAVED_SESSION (saved_session_expire_seconds opts)
                           (create_fields kwargs ip v)]
        \<and> cookies (response (snd (update_session tok opts True kwargs v))) ''sid''
            = Some \<lparr>cookie_value = new_sid, expires = Some t,
                     max_age = Some (saved_session_expire_seconds opts),
                     domain_attr = cookie_domain opts, secure = cookie_secure opts,
                     httponly = True\<rparr>
        \<and> cookies (response (snd (update_session tok opts True kwargs v))) ''save''
            = Some \<lparr>cookie_value = ''1'', expires = Some t,
                     max_age = Some (saved_session_expire_seconds opts),
                     domain_attr = cookie_domain opts, secure = cookie_secure opts,
                     httponly = True\<rparr>)
   \<and> (request_cookies v ''sid'' = None \<and> kwargs \<noteq> [] \<and> remote_ip opts v = Inr ip
      \<and> token_add tok TYPE_UNSAVED_SESSION (unsaved_session_expire_seconds opts)
           (create_fields kwargs ip v) (store v) = ((new_sid, doc), st)
      \<and> doc \<noteq> []
    \<longrightarrow> fst (update_session tok opts False kwargs v) = Inr doc
        \<and> calls (snd (update_session tok opts False kwargs v))
            = calls v @ [TokenAdd TYPE_UNSAVED_SESSION (unsaved_session_expire_seconds opts)
                           (create_fields kwargs ip v)]
        \<and> cookies (response (snd (update_session tok opts False kwargs v))) ''sid''
            = Some \<lparr>cookie_value = new_sid, expires = None, max_age = None,
                     domain_attr = cookie_domain opts, secure = cookie_secure opts,
                     httponly = True\<rparr>
        \<and> cookies (response (snd (update_session tok opts False kwargs v))) ''save''
            = cookies (response v) ''save'')
   \<and> (request_cookies v ''sid'' = Some s \<and> s \<noteq> [] \<and> kwargs \<noteq> []
      \<and> remote_ip opts v = Inr ip
      \<and> \<not> truthy_dict (fst (token_update tok s
             (session_type (truthy_str (request_cookies v ''save'')))
             (session_expire opts (truthy_str (request_cookies v ''save'')))
             (update_fields kwargs ip v) (store v)))
    \<longrightarrow> calls (snd (update_session tok opts new_saved kwargs v))
          = calls v @
            [TokenUpdate s (session_type (truthy_str (request_cookies v ''save'')))
               (session_expire opts (truthy_str (request_cookies v ''save'')))
               (update_fields kwargs ip v),
             TokenAdd (if truthy_str (request_cookies v ''save'') then TYPE_SAVED_SESSION
                       else TYPE_UNSAVED_SESSION)
               (if truthy_str (request_cookies v ''save'') then saved_session_expire_seconds opts
                else unsaved_session_expire_seconds opts)
               (create_fields kwargs ip v)])"
proof (intro conjI impI)
  assume a: "request_cookies v ''sid'' = None \<and> kwargs \<noteq> [] \<and> remote_ip opts v = Inr ip
      \<and> token_add tok TYPE_SAVED_SESSION (saved_session_expire_seconds opts)
           (create_fields kwargs ip v) (store v) = ((new_sid, doc), st)
      \<and> map_of doc ''expire_at'' = Some (VDatetime t)"
  then have n: "\<not> truthy_str (request_cookies v ''sid'')"
    by (simp add: truthy_str_def)
  have add: "token_add tok (session_type True) (session_expire opts True)
           (create_fields kwargs ip v) (store v) = ((new_sid, doc), st)"
    using a by (simp add: session_type_def session_expire_def)
  have ne: "doc \<noteq> []" using a by auto
  have u: "update_session tok opts True kwargs v
     = (Inr doc,
        set_cookie ''sid''
          (session_cookie opts new_sid (Some t) (Some (saved_session_expire_seconds opts)))
          (set_cookie ''save''
             (session_cookie opts ''1'' (Some t) (Some (saved_session_expire_seconds opts)))
             (v\<lparr>store := st,
                calls := calls v @ [TokenAdd TYPE_SAVED_SESSION
                  (saved_session_expire_seconds opts) (create_fields kwargs ip v)]\<rparr>)))"
    using a ne
    by (simp add: update_session_create_result [OF n _ _ add] session_cookies_def
        session_type_def session_expire_def)
  show "fst (update_session tok opts True kwargs v) = Inr doc"
    and "calls (snd (update_session tok opts True kwargs v))
            = calls v @ [TokenAdd TYPE_SAVED_SESSION (saved_session_expire_seconds opts)
                           (create_fields kwargs ip v)]"
    and "cookies (response (snd (update_session tok opts True kwargs v))) ''sid''
            = Some \<lparr>cookie_value = new_sid, expires = Some t,
                     max_age = Some (saved_session_expire_seconds opts),
                     domain_attr = cookie_domain opts, secure = cookie_secure opts,
                     httponly = True\<rparr>"
    and "cookies (response (snd (update_session tok opts True kwargs v))) ''save''
            = Some \<lparr>cookie_value = ''1'', expires = Some t,
                     max_age = Some (saved_session_expire_seconds opts),
                     domain_attr = cookie_domain opts, secure = cookie_secure opts,
                     httponly = True\<rparr>"
    by (simp_all add: u session_cookie_def)
next
  assume a: "request_cookies v ''sid'' = None \<and> kwargs \<noteq> [] \<and> remote_ip opts v = Inr ip
      \<and> token_add tok TYPE_UNSAVED_SESSION (unsaved_session_expire_seconds opts)
           (create_fields kwargs ip v) (store v) = ((new_sid, doc), st)
      \<and> doc \<noteq> []"
  then have n: "\<not> truthy_str (request_cookies v ''sid'')"
    by (simp add: truthy_str_def)
  have add: "token_add tok (session_type False) (session_expire opts False)
           (create_fields kwargs ip v) (store v) = ((new_sid, doc), st)"
    using a by (simp add: session_type_def session_expire_def)
  have u: "update_session tok opts False kwargs v
     = (Inr doc,
        set_cookie ''sid'' (session_cookie opts new_sid None None)
          (v\<lparr>store := st,
             calls := calls v @ [TokenAdd TYPE_UNSAVED_SESSION
               (unsaved_session_expire_seconds opts) (create_fields kwargs ip v)]\<rparr>))"
    using a
    by (simp add: update_session_create_result [OF n _ _ add] session_cookies_def
        session_type_def session_expire_def)
  show "fst (update_session tok opts False kwargs v) = Inr doc"
    and "calls (snd (update_session tok opts False kwargs v))
            = calls v @ [TokenAdd TYPE_UNSAVED_SESSION (unsaved_session_expire_seconds opts)
                           (create_fields kwargs ip v)]"
    and "cookies (response (snd (update_session tok opts False kwargs v))) ''sid''
            = Some \<lparr>cookie_value = new_sid, expires = None, max_age = None,
                     domain_attr = cookie_domain opts, secure = cookie_secure opts,
                     httponly = True\<rparr>"
    and "cookies (response (snd (update_session tok opts False kwargs v))) ''save''
            = cookies (response v) ''save''"
    by (simp_all add: u session_cookie_def)
next
  assume a: "request_cookies v ''sid'' = Some s \<and> s \<noteq> [] \<and> kwargs \<noteq> []
      \<and> remote_ip opts v = Inr ip
      \<and> \<not> truthy_dict (fst (token_update tok s
             (session_type (truthy_str (request_cookies v ''save'')))
             (session_expire opts (truthy_str (request_cookies v ''save'')))
             (update_fields kwargs ip v) (store v)))"
  then have sid: "request_cookies v ''sid'' = Some s" "s \<noteq> []" by simp_all
  show "calls (snd (update_session tok opts new_saved kwargs v))
          = calls v @
            [TokenUpdate s (session_type (truthy_str (request_cookies v ''save'')))
               (session_expire opts (truthy_str (request_cookies v ''save'')))
               (update_fields kwargs ip v),
             TokenAdd (if truthy_str (request_cookies v ''save'') then TYPE_SAVED_SESSION
                       else TYPE_UNSAVED_SESSION)
               (if truthy_str (request_cookies v ''save'') then saved_session_expire_seconds opts
                else unsaved_session_expire_seconds opts)
               (create_fields kwargs ip v)]"
    using a by (simp add: update_session_calls_sid [OF sid] session_type_def session_expire_def)
qed

theorem update_session_creates_by_mode_witness:
  "request_cookies (demo_view Map.empty []) ''sid'' = None
   \<and> remote_ip demo_options (demo_view Map.empty []) = Inr (VStr ''10.0.0.1'')
   \<and> calls (snd (update_session demo_token demo_options True [(''uid'', VInt 5)]
                  (demo_view Map.empty [])))
       = [TokenAdd TYPE_SAVED_SESSION 2592000
            [(''uid'', VInt 5), (''create_ip'', VStr ''10.0.0.1''), (''create_ua'', VStr ''curl'')]]
   \<and> cookies (response (snd (update_session demo_token demo_options True [(''uid'', VInt 5)]
                  (demo_view Map.empty [])))) ''sid''
       = Some \<lparr>cookie_value = ''new'', expires = Some 2592000, max_age = Some 2592000,
                domain_attr = VNone, secure = VBool False, httponly = True\<rparr>
   \<and> cookies (response (snd (update_session demo_token demo_options True [(''uid'', VInt 5)]
                  (demo_view Map.empty [])))) ''save''
       = Some \<lparr>cookie_value = ''1'', expires = Some 2592000, max_age = Some 2592000,
                domain_attr = VNone, secure = VBool False, httponly = True\<rparr>
   \<and> calls (snd (update_session demo_token demo_options False [(''uid'', VInt 5)]
                  (demo_view Map.empty [])))
       = [TokenAdd TYPE_UNSAVED_SESSION 10800
            [(''uid'', VInt 5), (''create_ip'', VStr ''10.0.0.1''), (''create_ua'', VStr ''curl'')]]
   \<and> cookies (response (snd (update_session demo_token demo_options False [(''uid'', VInt 5)]
                  (demo_view Map.empty [])))) ''sid''
       = Some \<lparr>cookie_value = ''new'', expires = None, max_age = None,
                domain_attr = VNone, secure = VBool False, httponly = True\<rparr>
   \<and> cookies (response (snd (update_session demo_token demo_options False [(''uid'', VInt 5)]
                  (demo_view Map.empty [])))) ''save'' = None
   \<and> request_cookies (demo_view [''sid'' \<mapsto> ''gone'', ''save'' \<mapsto> ''1''] []) ''sid''
       = Some ''gone''
   \<and> \<not> truthy_dict (fst (token_update demo_token ''gone'' TYPE_SAVED_SESSION 2592000
            [(''uid'', VInt 5), (''update_ip'', VStr ''10.0.0.1''), (''update_ua'', VStr ''curl'')]
            []))
   \<and> calls (snd (update_session demo_token demo_options False [(''uid'', VInt 5)]
                  (demo_view [''sid'' \<mapsto> ''gone'', ''save'' \<mapsto> ''1''] [])))
       = [TokenUpdate ''gone'' TYPE_SAVED_SESSION 2592000
            [(''uid'', VInt 5), (''update_ip'', VStr ''10.0.0.1''), (''update_ua'', VStr ''curl'')],
          TokenAdd TYPE_SAVED_SESSION 2592000
            [(''uid'', VInt 5), (''create_ip'', VStr ''10.0.0.1''), (''create_ua'', VStr ''curl'')]]"
  using
    update_session_creates_by_mode [of "demo_view Map.empty []" "[(''uid'', VInt 5)]"
      demo_options "VStr ''10.0.0.1''" demo_token "''new''"
      "[(''_id'', VBytes ''new''), (''expire_at'', VDatetime 2592000), (''uid'', VInt 5),
        (''create_ip'', VStr ''10.0.0.1''), (''create_ua'', VStr ''curl'')]"
      "[(''new'', [(''_id'', VBytes ''new''), (''expire_at'', VDatetime 2592000), (''uid'', VInt 5),
        (''create_ip'', VStr ''10.0.0.1''), (''create_ua'', VStr ''curl'')])]"
      2592000 "''gone''" False]
    update_session_creates_by_mode [of "demo_view [''sid'' \<mapsto> ''gone'', ''save'' \<mapsto> ''1''] []"
      "[(''uid'', VInt 5)]" demo_options "VStr ''10.0.0.1''" demo_token "''new''" "[]" "[]"
      0 "''gone''" False]
  by (simp add: demo_simps)

subsection \<open>A session always comes with its id\<close>

lemma remote_ip_error: "remote_ip opts v = Inl e \<Longrightarrow> e = TypeError ''peername''"
  by (auto simp: remote_ip_def split: option.splits if_splits)

lemma session_cookies_with_sid:
  "fst (session_cookies opts (Some s) sess save ttl v) \<noteq> Inl (TypeError ''sid'')"
  by (auto simp: session_cookies_def split: option.splits val.splits)

lemma session_cookies_result:
  "fst (case session_cookies opts (Some s) sess save ttl v of
          (Inl e, v3) \<Rightarrow> (Inl e, v3)
        | (Inr u, v3) \<Rightarrow> (Inr d, v3)) \<noteq> Inl (TypeError ''sid'')"
  using session_cookies_with_sid [of opts s sess save ttl v]
  by (auto split: prod.splits sum.splits)

text \<open>
  The branch of the cookie block for a session without a session id is never taken:
  \<^verbatim>\<open>update_session\<close> does not raise its error.
\<close>

lemma update_session_sid_is_string:
  "fst (update_session tok opts new_saved kwargs v) \<noteq> Inl (TypeError ''sid'')"
proof (cases "remote_ip opts v")
  case (Inl e)
  then have e: "e = TypeError ''peername''" by (rule remote_ip_error)
  show ?thesis
  proof (cases "truthy_str (request_cookies v ''sid'')")
    case True
    then show ?thesis using Inl e by (simp add: update_session_error_renew)
  next
    case False
    show ?thesis
    proof (cases "kwargs = []")
      case True
      then show ?thesis using False by (simp add: update_session_no_sid_no_data)
    next
      case ne: False
      then show ?thesis using False Inl e by (simp add: update_session_error_create)
    qed
  qed
next
  case (Inr ip)
  show ?thesis
  proof (cases "truthy_str (request_cookies v ''sid'')")
    case False
    show ?thesis
    proof (cases "kwargs = []")
      case True
      then show ?thesis using False by (simp add: update_session_no_sid_no_data)
    next
      case ne: False
      have n: "\<not> truthy_dict None" by (simp add: truthy_dict_def)
      show ?thesis
        unfolding update_session_cookies_phase
          [OF session_renew_no_sid [OF False] session_create_add [OF ne n Inr]]
        by (rule session_cookies_result)
    qed
  next
    case True
    then obtain s where sid: "request_cookies v ''sid'' = Some s" "s \<noteq> []"
      by (auto simp: truthy_str_def split: option.splits)
    note renew = session_renew_update [OF sid Inr]
    show ?thesis
    proof (cases "kwargs \<noteq> [] \<and> \<not> truthy_dict (fst (token_update tok s
             (session_type (session_save new_saved v))
             (session_expire opts (session_save new_saved v))
             (update_fields kwargs ip v) (store v)))")
      case True
      then have a: "kwargs \<noteq> []" and b: "\<not> truthy_dict (fst (token_update tok s
             (session_type (session_save new_saved v))
             (session_expire opts (session_save new_saved v))
             (update_fields kwargs ip v) (store v)))" by simp_all
      have r: "remote_ip opts (v\<lparr>store := st, calls := cs\<rparr>) = Inr ip" for st cs
        using Inr by simp
      show ?thesis
        unfolding update_session_cookies_phase [OF renew session_create_add [OF a b r]]
        by (rule session_cookies_result)
    next
      case False
      then have c: "kwargs = [] \<or> truthy_dict (fst (token_update tok s
             (session_type (session_save new_saved v))
             (session_expire opts (session_save new_saved v))
             (update_fields kwargs ip v) (store v)))" by simp
      show ?thesis
        unfolding update_session_cookies_phase [OF renew session_create_skip [OF c]] sid
        by (rule session_cookies_result)
    qed
  qed
qed

section \<open>The CSRF token and its guard\<close>

subsection \<open>The memo table\<close>

lemma map_of_cache_of:
  "cache_of f cache \<Longrightarrow> map_of cache k = Some r \<Longrightarrow> f k = Inr r"
  by (auto simp: cache_of_def list_all_iff dest: map_of_SomeD)

lemma cache_of_delete: "cache_of f cache \<Longrightarrow> cache_of f (AList.delete k cache)"
  by (auto simp: cache_of_def list_all_iff AList.delete_eq)

lemma cache_of_take: "cache_of f cache \<Longrightarrow> cache_of f (take n cache)"
  by (auto simp: cache_of_def list_all_iff dest: in_set_takeD)

lemma lru_cache_call_value:
  "cache_of f cache \<Longrightarrow> fst (lru_cache_call n f k cache) = f k"
proof (cases "map_of cache k")
  case None
  then show ?thesis by (simp add: lru_cache_call_def split: sum.splits)
next
  case (Some r)
  assume "cache_of f cache"
  then have "f k = Inr r" using Some by (rule map_of_cache_of)
  then show ?thesis using Some by (simp add: lru_cache_call_def)
qed

lemma lru_cache_call_cache_of:
  assumes "cache_of f cache"
  shows "cache_of f (snd (lru_cache_call n f k cache))"
proof (cases "map_of cache k")
  case None
  show ?thesis
  proof (cases "f k")
    case (Inl e)
    then show ?thesis using None assms by (simp add: lru_cache_call_def)
  next
    case (Inr r)
    have "cache_of f ((k, r) # cache)"
      using assms Inr by (simp add: cache_of_def)
    then show ?thesis
      using None Inr by (simp add: lru_cache_call_def cache_of_take)
  qed
next
  case (Some r)
  have "f k = Inr r" using assms Some by (rule map_of_cache_of)
  then have "cache_of f ((k, r) # AList.delete k cache)"
    using cache_of_delete [OF assms, of k] by (simp add: cache_of_def)
  then show ?thesis using Some by (simp add: lru_cache_call_def)
qed

lemma lru_cache_call_again:
  "0 < n \<Longrightarrow>
   fst (lru_cache_call n f k (snd (lru_cache_call n f k cache))) = fst (lru_cache_call n f k cache)"
  by (cases n) (auto simp: lru_cache_call_def split: option.splits sum.splits)

lemma csrf_token_session [simp]: "session (snd (csrf_token hm v)) = session v"
  by (simp add: csrf_token_def case_prod_beta split: option.splits)

lemma csrf_token_again:
  "fst (csrf_token hm (snd (csrf_token hm v))) = fst (csrf_token hm v)"
proof (cases "session v = []")
  case True
  then show ?thesis by (simp add: csrf_token_def)
next
  case False
  show ?thesis
  proof (cases "map_of (session v) ''_id''")
    case None
    then show ?thesis using False by (simp add: csrf_token_def)
  next
    case (Some i)
    have "fst (csrf_token hm w) = fst (get_csrf_token hm i (csrf_cache w))"
      and "csrf_cache (snd (csrf_token hm w)) = snd (get_csrf_token hm i (csrf_cache w))"
      if "session w = session v" for w :: "'a view"
      using that False Some by (simp_all add: csrf_token_def case_prod_beta)
    then show ?thesis
      by (simp add: get_csrf_token_def lru_cache_call_again)
  qed
qed

text \<open>
  Claim C8. The CSRF token of a view is the empty string when the view has no session.
  With a session it is the hex digest of the HMAC (SHA-256) of the session id under the
  key \<^verbatim>\<open>csrf_token\<close>. Deriving it again returns the same value, and two views with
  the same session id derive the same token, whatever else differs between them: the
  token is a function of the session id alone.
\<close>

theorem csrf_token_derivation:
  "(session (v :: 's view) = [] \<longrightarrow> csrf_token hm v = (Inr [], v))
   \<and> (session v \<noteq> [] \<and> map_of (session v) ''_id'' = Some (VBytes sid)
        \<and> cache_of (get_csrf_token_body hm) (csrf_cache v)
      \<longrightarrow> fst (csrf_token hm v) = Inr (hm ''csrf_token'' sid ''sha256'')
          \<and> cache_of (get_csrf_token_body hm) (csrf_cache (snd (csrf_token hm v))))
   \<and> fst (csrf_token hm (snd (csrf_token hm v))) = fst (csrf_token hm v)
   \<and> (session v \<noteq> [] \<and> session (v' :: 's view) \<noteq> []
        \<and> map_of (session v) ''_id'' = map_of (session v') ''_id''
        \<and> cache_of (get_csrf_token_body hm) (csrf_cache v)
        \<and> cache_of (get_csrf_token_body hm) (csrf_cache v')
      \<longrightarrow> fst (csrf_token hm v) = fst (csrf_token hm v'))"
proof -
  have val: "fst (csrf_token hm w) = get_csrf_token_body hm i"
    and inv: "cache_of (get_csrf_token_body hm) (csrf_cache (snd (csrf_token hm w)))"
    if "session w \<noteq> []" "map_of (session w) ''_id'' = Some i"
      "cache_of (get_csrf_token_body hm) (csrf_cache w)" for w :: "'s view" and i
    using that
    by (simp_all add: csrf_token_def get_csrf_token_def lru_cache_call_value
        lru_cache_call_cache_of case_prod_beta)
  have same: "fst (csrf_token hm v) = fst (csrf_token hm v')"
    if "session v \<noteq> []" "session v' \<noteq> []"
      "map_of (session v) ''_id'' = map_of (session v') ''_id''"
      "cache_of (get_csrf_token_body hm) (csrf_cache v)"
      "cache_of (get_csrf_token_body hm) (csrf_cache v')"
  proof (cases "map_of (session v) ''_id''")
    case None
    then show ?thesis using that by (simp add: csrf_token_def)
  next
    case (Some i)
    then show ?thesis using that val [of v i] val [of v' i] by simp
  qed
  have empty: "session v = [] \<Longrightarrow> csrf_token hm v = (Inr [], v)"
    by (simp add: csrf_token_def)
  have body: "get_csrf_token_body hm (VBytes sid) = Inr (hm ''csrf_token'' sid ''sha256'')"
    by (simp add: get_csrf_token_body_def)
  show ?thesis
    using empty val [of v "VBytes sid"] inv [of v "VBytes sid"] same csrf_token_again [of hm v]
    by (simp only: body) blast
qed

theorem csrf_token_derivation_witness:
  "session (demo_view Map.empty []) = []
   \<and> csrf_token demo_hmac (demo_view Map.empty []) = (Inr [], demo_view Map.empty [])
   \<and> cache_of (get_csrf_token_body demo_hmac) (csrf_cache (demo_view Map.empty []))
   \<and> fst (csrf_token demo_hmac ((demo_view Map.empty [])\<lparr>session := [(''_id'', VBytes ''abc'')]\<rparr>))
       = Inr ''sha256:csrf_token:abc''
   \<and> fst (csrf_token demo_hmac
            ((demo_view [''sid'' \<mapsto> ''x''] [])\<lparr>session := [(''_id'', VBytes ''abc''), (''uid'', VInt 7)],
               csrf_cache := [(VBytes ''abc'', ''sha256:csrf_token:abc'')]\<rparr>))
       = Inr ''sha256:csrf_token:abc''"
  using csrf_token_derivation [of "demo_view Map.empty []" demo_hmac "''abc''"
      "demo_view Map.empty []"]
    csrf_token_derivation [of "(demo_view Map.empty [])\<lparr>session := [(''_id'', VBytes ''abc'')]\<rparr>"
      demo_hmac "''abc''"
      "(demo_view [''sid'' \<mapsto> ''x''] [])\<lparr>session := [(''_id'', VBytes ''abc''), (''uid'', VInt 7)],
               csrf_cache := [(VBytes ''abc'', ''sha256:csrf_token:abc'')]\<rparr>"]
  by (simp add: demo_view_def demo_hmac_def cache_of_def get_csrf_token_body_def
      csrf_token_def get_csrf_token_def lru_cache_call_def)

subsection \<open>The guard \<^verbatim>\<open>require_csrf_token\<close>\<close>

lemma csrf_token_second:
  "csrf_token hm v = (Inr t, v1) \<Longrightarrow> fst (csrf_token hm v1) = Inr t"
  using csrf_token_again [of hm v] by simp

text \<open>
  Claim C9. For a handler wrapped by \<^verbatim>\<open>require_csrf_token\<close> and keyword arguments
  with a \<^verbatim>\<open>csrf_token\<close> field: when the expected token of the view is not empty, the
  handler is called with the field removed if the field is that token, and
  \<^verbatim>\<open>CsrfTokenError\<close> is raised if it is not; when the expected token is empty (as it
  is without a session), the field is not popped and the handler is called with the
  keyword arguments as they came, the field among them.
\<close>

theorem require_csrf_token_pop:
  "(map_of kwargs ''csrf_token'' = Some (VStr t) \<and> csrf_token hm v = (Inr t, v1) \<and> t \<noteq> []
      \<longrightarrow> require_csrf_token hm func kwargs v
            = func (AList.delete ''csrf_token'' kwargs) (snd (csrf_token hm v1))
          \<and> map_of (AList.delete ''csrf_token'' kwargs) ''csrf_token'' = None)
   \<and> (map_of kwargs ''csrf_token'' = Some x \<and> csrf_token hm v = (Inr t, v1) \<and> t \<noteq> []
        \<and> x \<noteq> VStr t
      \<longrightarrow> require_csrf_token hm func kwargs v = (Inl CsrfTokenError, snd (csrf_token hm v1)))
   \<and> (map_of kwargs ''csrf_token'' = Some x \<and> csrf_token hm v = (Inr [], v1)
      \<longrightarrow> require_csrf_token hm func kwargs v = func kwargs v1)
   \<and> (map_of kwargs ''csrf_token'' = Some x \<and> session v = []
      \<longrightarrow> require_csrf_token hm func kwargs v = func kwargs v)"
proof -
  have second: "\<exists>v2. csrf_token hm v1 = (Inr t, v2)" if "csrf_token hm v = (Inr t, v1)"
    using csrf_token_second [OF that] by (cases "csrf_token hm v1") simp
  have del: "map_of (AList.delete ''csrf_token'' kwargs) ''csrf_token'' = None"
    by (simp add: AList.delete_eq map_of_eq_None_iff image_iff)
  have a: "require_csrf_token hm func kwargs v
            = func (AList.delete ''csrf_token'' kwargs) (snd (csrf_token hm v1))"
    if h: "map_of kwargs ''csrf_token'' = Some (VStr t)" "csrf_token hm v = (Inr t, v1)" "t \<noteq> []"
  proof -
    obtain v2 where "csrf_token hm v1 = (Inr t, v2)" using second [OF h(2)] ..
    then show ?thesis using h by (simp add: require_csrf_token_def)
  qed
  have b: "require_csrf_token hm func kwargs v = (Inl CsrfTokenError, snd (csrf_token hm v1))"
    if h: "map_of kwargs ''csrf_token'' = Some x" "csrf_token hm v = (Inr t, v1)" "t \<noteq> []"
      "x \<noteq> VStr t"
  proof -
    obtain v2 where "csrf_token hm v1 = (Inr t, v2)" using second [OF h(2)] ..
    then show ?thesis using h by (auto simp: require_csrf_token_def)
  qed
  have c: "require_csrf_token hm func kwargs v = func kwargs v1"
    if "csrf_token hm v = (Inr [], v1)"
    using that by (simp add: require_csrf_token_def)
  have d: "require_csrf_token hm func kwargs v = func kwargs v" if "session v = []"
    using that by (simp add: require_csrf_token_def csrf_token_def)
  show ?thesis using a b c d del by blast
qed

theorem require_csrf_token_pop_witness:
  "csrf_token demo_hmac ((demo_view Map.empty [])\<lparr>session := [(''_id'', VBytes ''abc'')]\<rparr>)
     = (Inr ''sha256:csrf_token:abc'',
        (demo_view Map.empty [])\<lparr>session := [(''_id'', VBytes ''abc'')],
           csrf_cache := [(VBytes ''abc'', ''sha256:csrf_token:abc'')]\<rparr>)
   \<and> require_csrf_token demo_hmac (\<lambda>kw w. (Inr kw, w))
         [(''csrf_token'', VStr ''sha256:csrf_token:abc''), (''title'', VStr ''t'')]
         ((demo_view Map.empty [])\<lparr>session := [(''_id'', VBytes ''abc'')]\<rparr>)
       = (Inr [(''title'', VStr ''t'')],
          (demo_view Map.empty [])\<lparr>session := [(''_id'', VBytes ''abc'')],
             csrf_cache := [(VBytes ''abc'', ''sha256:csrf_token:abc'')]\<rparr>)
   \<and> require_csrf_token demo_hmac (\<lambda>kw w. (Inr kw, w))
         [(''csrf_token'', VStr ''forged''), (''title'', VStr ''t'')]
         ((demo_view Map.empty [])\<lparr>session := [(''_id'', VBytes ''abc'')]\<rparr>)
       = (Inl CsrfTokenError,
          (demo_view Map.empty [])\<lparr>session := [(''_id'', VBytes ''abc'')],
             csrf_cache := [(VBytes ''abc'', ''sha256:csrf_token:abc'')]\<rparr>)
   \<and> session (demo_view Map.empty []) = []
   \<and> require_csrf_token demo_hmac (\<lambda>kw w. (Inr kw, w))
         [(''csrf_token'', VStr ''forged''), (''title'', VStr ''t'')]
         (demo_view Map.empty [])
       = (Inr [(''csrf_token'', VStr ''forged''), (''title'', VStr ''t'')],
          demo_view Map.empty [])"
  using
    require_csrf_token_pop [of
      "[(''csrf_token'', VStr ''sha256:csrf_token:abc''), (''title'', VStr ''t'')]"
      "''sha256:csrf_token:abc''" demo_hmac
      "(demo_view Map.empty [])\<lparr>session := [(''_id'', VBytes ''abc'')]\<rparr>"
      "(demo_view Map.empty [])\<lparr>session := [(''_id'', VBytes ''abc'')],
           csrf_cache := [(VBytes ''abc'', ''sha256:csrf_token:abc'')]\<rparr>"
      "\<lambda>kw w. (Inr kw, w)" "VStr ''sha256:csrf_token:abc''"]
    require_csrf_token_pop [of
      "[(''csrf_token'', VStr ''forged''), (''title'', VStr ''t'')]"
      "''sha256:csrf_token:abc''" demo_hmac
      "(demo_view Map.empty [])\<lparr>session := [(''_id'', VBytes ''abc'')]\<rparr>"
      "(demo_view Map.empty [])\<lparr>session := [(''_id'', VBytes ''abc'')],
           csrf_cache := [(VBytes ''abc'', ''sha256:csrf_token:abc'')]\<rparr>"
      "\<lambda>kw w. (Inr kw, w)" "VStr ''forged''"]
    require_csrf_token_pop [of
      "[(''csrf_token'', VStr ''forged''), (''title'', VStr ''t'')]"
      "[]" demo_hmac "demo_view Map.empty []" "demo_view Map.empty []"
      "\<lambda>kw w. (Inr kw, w)" "VStr ''forged''"]
  by (simp add: demo_view_def demo_hmac_def get_csrf_token_body_def
      csrf_token_def get_csrf_token_def lru_cache_call_def)

section \<open>The POST dispatcher\<close>

lemma OperationView_post_missing:
  "map_of (request_post v) ''operation'' = None \<Longrightarrow>
   OperationView_post attrs v = (Inl (KeyError ''operation''), v)"
  by (simp add: OperationView_post_def)

lemma OperationView_post_unknown:
  "map_of (request_post v) ''operation'' = Some (VStr name) \<Longrightarrow> attrs (''post_'' @ name) = None \<Longrightarrow>
   OperationView_post attrs v = (Inl (InvalidOperationError name), v)"
  by (simp add: OperationView_post_def)

lemma OperationView_post_known:
  "map_of (request_post v) ''operation'' = Some (VStr name) \<Longrightarrow>
   attrs (''post_'' @ name) = Some method \<Longrightarrow>
   fst (OperationView_post attrs v)
     = (case fst (method (AList.delete ''operation'' (request_post v)) v) of
          Inl e \<Rightarrow> Inl e | Inr r \<Rightarrow> Inr ())"
  by (simp add: OperationView_post_def split: prod.splits sum.splits)

section \<open>The problem-list controller: delete and get\<close>

text \<open>
  Claim C10. For every domain id and list id, \<^verbatim>\<open>delete\<close> of the problem-list
  controller is a \<^verbatim>\<open>document.set\<close> of the single field \<^verbatim>\<open>deleted=True\<close> and
  \<^verbatim>\<open>get\<close> is the plain \<^verbatim>\<open>document.get\<close>, with no test of that field. On the
  document store of the specification the document stays in the store (the keys of the
  store are as before), and a \<^verbatim>\<open>get\<close> after the \<^verbatim>\<open>delete\<close> returns it, with
  \<^verbatim>\<open>deleted\<close> set.
\<close>

theorem problemlist_delete_keeps_document:
  "(document_get st did ty lid = Some doc
      \<longrightarrow> problemlist_delete ty st did lid
            = (Some (AList.update ''deleted'' (VBool True) doc),
               st((did, ty, lid) \<mapsto> AList.update ''deleted'' (VBool True) doc))
          \<and> problemlist_get ty (snd (problemlist_delete ty st did lid)) did lid
              = Some (AList.update ''deleted'' (VBool True) doc)
          \<and> map_of (AList.update ''deleted'' (VBool True) doc) ''deleted'' = Some (VBool True))
   \<and> problemlist_delete ty st did lid = document_set st did ty lid [(''deleted'', VBool True)]
   \<and> problemlist_get ty st did lid = document_get st did ty lid
   \<and> dom (snd (problemlist_delete ty st did lid)) = dom st"
  by (auto simp: problemlist_delete_def problemlist_get_def document_set_def document_get_def
      set_fields_def update_Some_unfold split: option.splits)

theorem problemlist_delete_keeps_document_witness:
  "document_get [(''system'', 12, VInt 1) \<mapsto> [(''title'', VStr ''t'')]] ''system'' 12 (VInt 1)
     = Some [(''title'', VStr ''t'')]
   \<and> fst (problemlist_delete 12 [(''system'', 12, VInt 1) \<mapsto> [(''title'', VStr ''t'')]]
             ''system'' (VInt 1))
       = Some [(''title'', VStr ''t''), (''deleted'', VBool True)]
   \<and> problemlist_get 12
         (snd (problemlist_delete 12 [(''system'', 12, VInt 1) \<mapsto> [(''title'', VStr ''t'')]]
                 ''system'' (VInt 1)))
         ''system'' (VInt 1)
       = Some [(''title'', VStr ''t''), (''deleted'', VBool True)]"
  using problemlist_delete_keeps_document
    [of "[(''system'', 12, VInt 1) \<mapsto> [(''title'', VStr ''t'')]]" "''system''" 12 "VInt 1"
        "[(''title'', VStr ''t'')]"]
  by (simp add: document_get_def problemlist_get_def)

section \<open>The dispatch wrapper\<close>

lemma try_body_prepare_raises:
  "prepare env (v\<lparr>response := new_response\<rparr>) = (Inl e, v1) \<Longrightarrow>
   try_body env handler v = (Some e, v1)"
  by (simp add: try_body_def)

lemma try_body_handler_raises:
  "prepare env (v\<lparr>response := new_response\<rparr>) = (Inr u, v0) \<Longrightarrow> handler v0 = (Inl e, v1) \<Longrightarrow>
   try_body env handler v = (Some e, v1)"
  by (simp add: try_body_def)

lemma error_response_json:
  "prefer_json (accept_parse env) (request_headers v) = Inr True \<Longrightarrow>
   error_response env e v
     = (Inr (),
        v\<lparr>warnings := warnings v @ [e],
          response := (response v)\<lparr>status := http_status env e,
            content_type := ''application/json'',
            resp_text := JsonEncode (JDict [(''error'', to_dict env e)])\<rparr>\<rparr>)"
  by (simp add: error_response_def Let_def)

lemma error_response_html:
  "prefer_json (accept_parse env) (request_headers v) = Inr False \<Longrightarrow>
   error_response env e v
     = (Inr (),
        v\<lparr>warnings := warnings v @ [e],
          response := (response v)\<lparr>status := http_status env e,
            content_type := ''text/html'',
            resp_text := Rendered (template_name env e)
              [(''error'', TError e),
               (''path_components'', TBuildPath (domain_id v) [(''error'', None)]),
               (''page_name'', TStr ''error''),
               (''page_title'', TTranslate ''error'')]\<rparr>\<rparr>)"
  by (simp add: error_response_def render_def Let_def)

lemma error_response_raises:
  "prefer_json (accept_parse env) (request_headers v) = Inl x \<Longrightarrow>
   error_response env e v
     = (Inl x,
        v\<lparr>warnings := warnings v @ [e],
          response := (response v)\<lparr>status := http_status env e\<rparr>\<rparr>)"
  by (simp add: error_response_def Let_def)

text \<open>
  When the Accept header of the request is one that \<^verbatim>\<open>accept.parse\<close> rejects, the
  \<^verbatim>\<open>except\<close> block is left by the parser's exception after the warning and the
  status: a user-facing error of the request then ends in that exception.
\<close>

lemma View_iter_negotiation_raises:
  assumes "try_body env handler v = (Some e, v1)" "is_user_facing e"
    and "prefer_json (accept_parse env) (request_headers v1) = Inl x"
  shows "View_iter env handler v
     = (Inl x,
        v1\<lparr>warnings := warnings v1 @ [e],
           response := (response v1)\<lparr>status := http_status env e\<rparr>\<rparr>)"
  using assms by (simp add: View_iter_def error_response_raises)

text \<open>
  Claim C7, as amended. When the preparation or the handler of a request raises an
  error of the user-facing taxonomy and the content negotiation on the request's Accept
  header gives an answer, the dispatch wrapper logs the error, sets the status of the
  response from the status the error declares, and returns the response: with the JSON
  encoding of \<^verbatim>\<open>{'error': e.to_dict()}\<close> when the client prefers JSON, and otherwise
  with the error's template rendered with the error bound to \<^verbatim>\<open>error\<close>. An error
  outside the taxonomy is not caught: it leaves the wrapper, and nothing is logged or
  written.
\<close>

theorem View_iter_error_translation:
  "(prepare env (v\<lparr>response := new_response\<rparr>) = (Inl e, v1)
      \<or> (\<exists>v0. prepare env (v\<lparr>response := new_response\<rparr>) = (Inr (), v0)
              \<and> handler v0 = (Inl e, v1)))
    \<longrightarrow>
      (is_user_facing e \<and> prefer_json (accept_parse env) (request_headers v1) = Inr True
         \<longrightarrow> View_iter env handler v
               = (Inr ((response v1)\<lparr>status := http_status env e, content_type := ''application/json'',
                    resp_text := JsonEncode (JDict [(''error'', to_dict env e)])\<rparr>),
                  v1\<lparr>warnings := warnings v1 @ [e],
                     response := (response v1)\<lparr>status := http_status env e, content_type := ''application/json'',
                    resp_text := JsonEncode (JDict [(''error'', to_dict env e)])\<rparr>\<rparr>))
      \<and> (is_user_facing e \<and> prefer_json (accept_parse env) (request_headers v1) = Inr False
         \<longrightarrow> View_iter env handler v
               = (Inr ((response v1)\<lparr>status := http_status env e, content_type := ''text/html'',
                    resp_text := Rendered (template_name env e)
                      [(''error'', TError e),
                       (''path_components'', TBuildPath (domain_id v1) [(''error'', None)]),
                       (''page_name'', TStr ''error''),
                       (''page_title'', TTranslate ''error'')]\<rparr>),
                  v1\<lparr>warnings := warnings v1 @ [e],
                     response := (response v1)\<lparr>status := http_status env e, content_type := ''text/html'',
                    resp_text := Rendered (template_name env e)
                      [(''error'', TError e),
                       (''path_components'', TBuildPath (domain_id v1) [(''error'', None)]),
                       (''page_name'', TStr ''error''),
                       (''page_title'', TTranslate ''error'')]\<rparr>\<rparr>))
      \<and> (\<not> is_user_facing e \<longrightarrow> View_iter env handler v = (Inl e, v1))"
proof (intro impI)
  assume "prepare env (v\<lparr>response := new_response\<rparr>) = (Inl e, v1)
      \<or> (\<exists>v0. prepare env (v\<lparr>response := new_response\<rparr>) = (Inr (), v0)
              \<and> handler v0 = (Inl e, v1))"
  then have t: "try_body env handler v = (Some e, v1)"
    by (auto simp: try_body_prepare_raises try_body_handler_raises)
  show "(is_user_facing e \<and> prefer_json (accept_parse env) (request_headers v1) = Inr True
         \<longrightarrow> View_iter env handler v
               = (Inr ((response v1)\<lparr>status := http_status env e, content_type := ''application/json'',
                    resp_text := JsonEncode (JDict [(''error'', to_dict env e)])\<rparr>),
                  v1\<lparr>warnings := warnings v1 @ [e],
                     response := (response v1)\<lparr>status := http_status env e, content_type := ''application/json'',
                    resp_text := JsonEncode (JDict [(''error'', to_dict env e)])\<rparr>\<rparr>))
      \<and> (is_user_facing e \<and> prefer_json (accept_parse env) (request_headers v1) = Inr False
         \<longrightarrow> View_iter env handler v
               = (Inr ((response v1)\<lparr>status := http_status env e, content_type := ''text/html'',
                    resp_text := Rendered (template_name env e)
                      [(''error'', TError e),
                       (''path_components'', TBuildPath (domain_id v1) [(''error'', None)]),
                       (''page_name'', TStr ''error''),
                       (''page_title'', TTranslate ''error'')]\<rparr>),
                  v1\<lparr>warnings := warnings v1 @ [e],
                     response := (response v1)\<lparr>status := http_status env e, content_type := ''text/html'',
                    resp_text := Rendered (template_name env e)
                      [(''error'', TError e),
                       (''path_components'', TBuildPath (domain_id v1) [(''error'', None)]),
                       (''page_name'', TStr ''error''),
                       (''page_title'', TTranslate ''error'')]\<rparr>\<rparr>))
      \<and> (\<not> is_user_facing e \<longrightarrow> View_iter env handler v = (Inl e, v1))"
    by (simp add: View_iter_def t error_response_json error_response_html)
qed

text \<open>The definitions that evaluate a whole request on the concrete collaborators.\<close>

lemmas demo_request_simps =
  prepare_def try_body_def View_iter_def error_response_def render_def prefer_json_def
  demo_parse_def demo_env_def demo_builtin_def demo_domain_def demo_owner_def dict_get_def

theorem View_iter_error_translation_witness:
  "fst (prepare demo_env
          ((demo_view Map.empty [])\<lparr>match_info := [''domain_id'' \<mapsto> ''acmoj''],
             request_headers := [''Accept'' \<mapsto> ''text/html''], response := new_response\<rparr>))
     = Inl (DomainNotFoundError ''acmoj'')
   \<and> is_user_facing (DomainNotFoundError ''acmoj'')
   \<and> prefer_json demo_parse [''Accept'' \<mapsto> ''text/html''] = Inr False
   \<and> fst (View_iter demo_env (\<lambda>w. (Inr (), w))
            ((demo_view Map.empty [])\<lparr>match_info := [''domain_id'' \<mapsto> ''acmoj''],
               request_headers := [''Accept'' \<mapsto> ''text/html'']\<rparr>))
       = Inr \<lparr>status = 404, content_type = ''text/html'',
               resp_text = Rendered ''error.html''
                 [(''error'', TError (DomainNotFoundError ''acmoj'')),
                  (''path_components'', TBuildPath ''acmoj'' [(''error'', None)]),
                  (''page_name'', TStr ''error''),
                  (''page_title'', TTranslate ''error'')],
               cookies = Map.empty, resp_headers = Map.empty\<rparr>
   \<and> warnings (snd (View_iter demo_env (\<lambda>w. (Inr (), w))
            ((demo_view Map.empty [])\<lparr>match_info := [''domain_id'' \<mapsto> ''acmoj''],
               request_headers := [''Accept'' \<mapsto> ''text/html'']\<rparr>)))
       = [DomainNotFoundError ''acmoj'']
   \<and> fst (prepare demo_env
          ((demo_view Map.empty [])\<lparr>request_headers := [''Accept'' \<mapsto> ''application/json''],
             response := new_response\<rparr>))
       = Inr ()
   \<and> prefer_json demo_parse [''Accept'' \<mapsto> ''application/json''] = Inr True
   \<and> fst (View_iter demo_env
            (\<lambda>w. (check_perm demo_builtin (user w) (domain_id w) demo_domain 6, w))
            ((demo_view Map.empty [])\<lparr>request_headers := [''Accept'' \<mapsto> ''application/json'']\<rparr>))
       = Inr \<lparr>status = 403, content_type = ''application/json'',
               resp_text = JsonEncode (JDict [(''error'', JDict [(''code'', JVal (VInt 403))])]),
               cookies = Map.empty, resp_headers = Map.empty\<rparr>
   \<and> warnings (snd (View_iter demo_env
            (\<lambda>w. (check_perm demo_builtin (user w) (domain_id w) demo_domain 6, w))
            ((demo_view Map.empty [])\<lparr>request_headers := [''Accept'' \<mapsto> ''application/json'']\<rparr>)))
       = [PermissionError 6]
   \<and> \<not> is_user_facing (OtherError ''token store unavailable'')
   \<and> fst (View_iter demo_env (\<lambda>w. (Inl (OtherError ''token store unavailable''), w))
            (demo_view Map.empty []))
       = Inl (OtherError ''token store unavailable'')
   \<and> warnings (snd (View_iter demo_env (\<lambda>w. (Inl (OtherError ''token store unavailable''), w))
            (demo_view Map.empty [])))
       = []"
  using
    View_iter_error_translation [of demo_env
      "(demo_view Map.empty [])\<lparr>match_info := [''domain_id'' \<mapsto> ''acmoj''],
         request_headers := [''Accept'' \<mapsto> ''text/html'']\<rparr>"
      "DomainNotFoundError ''acmoj''"
      "snd (prepare demo_env
          ((demo_view Map.empty [])\<lparr>match_info := [''domain_id'' \<mapsto> ''acmoj''],
             request_headers := [''Accept'' \<mapsto> ''text/html''], response := new_response\<rparr>))"
      "\<lambda>w. (Inr (), w)"]
    View_iter_error_translation [of demo_env
      "(demo_view Map.empty [])\<lparr>request_headers := [''Accept'' \<mapsto> ''application/json'']\<rparr>"
      "PermissionError 6"
      "snd (prepare demo_env
          ((demo_view Map.empty [])\<lparr>request_headers := [''Accept'' \<mapsto> ''application/json''],
             response := new_response\<rparr>))"
      "\<lambda>w. (check_perm demo_builtin (user w) (domain_id w) demo_domain 6, w)"]
    View_iter_error_translation [of demo_env "demo_view Map.empty []"
      "OtherError ''token store unavailable''"
      "snd (prepare demo_env ((demo_view Map.empty [])\<lparr>response := new_response\<rparr>))"
      "\<lambda>w. (Inl (OtherError ''token store unavailable''), w)"]
  by (simp add: demo_request_simps demo_simps check_perm_def has_perm_def)

text \<open>
  Claim C7 as stated fails: for a request with the header
  \<^verbatim>\<open>Accept: text/html;level\<close>, which the parser rejects, and a handler that raises
  \<^verbatim>\<open>PermissionError\<close>, the wrapper logs the error and sets the status 403, and is
  then left by \<^verbatim>\<open>ValueError\<close>: no response is returned, with neither body.
\<close>

theorem View_iter_unparsed_accept_no_response:
  "is_user_facing (PermissionError 6)
   \<and> fst (prepare demo_env
            ((demo_view Map.empty [])\<lparr>request_headers := [''Accept'' \<mapsto> ''text/html;level''],
               response := new_response\<rparr>))
       = Inr ()
   \<and> check_perm demo_builtin (USER_GUEST demo_builtin) ''system'' demo_domain 6
       = Inl (PermissionError 6)
   \<and> demo_parse (Some ''text/html;level'') = Inl (ValueError ''parameter'')
   \<and> fst (View_iter demo_env
            (\<lambda>w. (check_perm demo_builtin (user w) (domain_id w) demo_domain 6, w))
            ((demo_view Map.empty [])\<lparr>request_headers := [''Accept'' \<mapsto> ''text/html;level'']\<rparr>))
       = Inl (ValueError ''parameter'')
   \<and> warnings (snd (View_iter demo_env
                     (\<lambda>w. (check_perm demo_builtin (user w) (domain_id w) demo_domain 6, w))
                     ((demo_view Map.empty [])\<lparr>request_headers := [''Accept'' \<mapsto> ''text/html;level'']\<rparr>)))
       = [PermissionError 6]
   \<and> status (response (snd (View_iter demo_env
                              (\<lambda>w. (check_perm demo_builtin (user w) (domain_id w) demo_domain 6, w))
                              ((demo_view Map.empty [])\<lparr>request_headers := [''Accept'' \<mapsto> ''text/html;level'']\<rparr>))))
       = 403
   \<and> resp_text (response (snd (View_iter demo_env
                                 (\<lambda>w. (check_perm demo_builtin (user w) (domain_id w) demo_domain 6, w))
                                 ((demo_view Map.empty [])\<lparr>request_headers := [''Accept'' \<mapsto> ''text/html;level'']\<rparr>))))
       = NoBody"
  by (simp add: demo_request_simps demo_simps check_perm_def has_perm_def)

section \<open>A POST without the operation field\<close>

text \<open>
  Claim C1 at a POST whose form has no \<^verbatim>\<open>operation\<close> field: \<^verbatim>\<open>pop\<close> raises
  \<^verbatim>\<open>KeyError\<close>, which is outside the user-facing taxonomy and leaves the dispatch
  wrapper as it is; the claim asks for \<^verbatim>\<open>InvalidOperationError\<close>. A POST that names
  an operation without a handler does get \<^verbatim>\<open>InvalidOperationError\<close>, translated to
  a response.
\<close>

theorem OperationView_post_without_operation:
  "OperationView_post demo_attrs
     ((demo_view Map.empty [])\<lparr>request_post := [(''star'', VStr ''true'')]\<rparr>)
     = (Inl (KeyError ''operation''),
        (demo_view Map.empty [])\<lparr>request_post := [(''star'', VStr ''true'')]\<rparr>)
   \<and> \<not> is_user_facing (KeyError ''operation'')
   \<and> fst (View_iter demo_env (OperationView_post demo_attrs)
            ((demo_view Map.empty [])\<lparr>request_post := [(''star'', VStr ''true'')]\<rparr>))
       = Inl (KeyError ''operation'')
   \<and> fst (View_iter demo_env (OperationView_post demo_attrs)
            ((demo_view Map.empty [])\<lparr>request_post := [(''operation'', VStr ''unstar'')]\<rparr>))
       = Inr \<lparr>status = 400, content_type = ''text/html'',
               resp_text = Rendered ''error.html''
                 [(''error'', TError (InvalidOperationError ''unstar'')),
                  (''path_components'', TBuildPath ''system'' [(''error'', None)]),
                  (''page_name'', TStr ''error''),
                  (''page_title'', TTranslate ''error'')],
               cookies = Map.empty, resp_headers = Map.empty\<rparr>"
  by (simp add: OperationView_post_def demo_attrs_def demo_request_simps demo_simps)

end
